theory Spec2Isabelle
  imports Complex_Main
begin

section \<open>Python values, errors and the library functions the scripts call\<close>

text \<open>
  The two scripts (\<^verbatim>\<open>scripts/benchmark.py\<close> and \<^verbatim>\<open>scripts/generate_baseline.py\<close>) build
  dictionaries with string keys whose values are strings, integers or floats. A dictionary
  literal is modelled by the list of its key/value pairs in the order they are written
  (Python dictionaries keep insertion order); every literal of the scripts has pairwise
  distinct keys. Characters are code points below 256, which covers every character of the
  scripts' data. Python floats are modelled by exact rationals: no rounding error of the
  binary representation is part of the model.
\<close>

datatype error = IndexError | ValueError | ZeroDivisionError

datatype pyval = VStr string | VInt int | VFloat rat

type_synonym pydict = "(string \<times> pyval) list"

text \<open>\<^verbatim>\<open>d.get(key, default)\<close>.\<close>

definition dict_get :: "pydict \<Rightarrow> string \<Rightarrow> pyval \<Rightarrow> pyval" where
  "dict_get d key dflt = (case map_of d key of None \<Rightarrow> dflt | Some v \<Rightarrow> v)"

definition keys :: "pydict \<Rightarrow> string list" where
  "keys d = map fst d"

text \<open>
  Sequencing of computations that thread a state and may raise: \<open>Inl\<close> is the exception,
  which ends the computation.
\<close>

definition bnd :: "error + ('a \<times> 's) \<Rightarrow> ('a \<Rightarrow> 's \<Rightarrow> error + ('b \<times> 's)) \<Rightarrow> error + ('b \<times> 's)" where
  "bnd m f = (case m of Inl e \<Rightarrow> Inl e | Inr (v, s) \<Rightarrow> f v s)"

subsection \<open>The process-wide random generator\<close>

text \<open>
  The state of module \<^verbatim>\<open>random\<close> is an unknown sequence of raw draws and the position
  reached in it. Each library call consumes one draw and maps it into its documented range,
  so every behaviour of the real generator is the behaviour of the model on some sequence.
\<close>

record rng =
  draws :: "nat \<Rightarrow> nat"
  pos :: nat

definition next_draw :: "rng \<Rightarrow> nat \<times> rng" where
  "next_draw g = (draws g (pos g), g\<lparr>pos := Suc (pos g)\<rparr>)"

text \<open>\<^verbatim>\<open>random.choice(seq)\<close>: raises IndexError on an empty sequence.\<close>

definition choice :: "'a list \<Rightarrow> rng \<Rightarrow> error + ('a \<times> rng)" where
  "choice seq g =
     (if seq = [] then Inl IndexError
      else case next_draw g of (r, g') \<Rightarrow> Inr (seq ! (r mod length seq), g'))"

text \<open>\<^verbatim>\<open>random.randint(a, b)\<close>: an integer of the closed range, ValueError when it is empty.\<close>

definition randint :: "int \<Rightarrow> int \<Rightarrow> rng \<Rightarrow> error + (int \<times> rng)" where
  "randint a b g =
     (if b < a then Inl ValueError
      else case next_draw g of (r, g') \<Rightarrow> Inr (a + int (r mod nat (b - a + 1)), g'))"

text \<open>
  \<^verbatim>\<open>random.uniform(a, b)\<close> is \<^verbatim>\<open>a + (b - a) * random()\<close>, where \<^verbatim>\<open>random()\<close> is a multiple
  of \<open>2\<^sup>-\<^sup>5\<^sup>3\<close> in \<open>[0, 1)\<close>.
\<close>

definition random_unit :: "rng \<Rightarrow> rat \<times> rng" where
  "random_unit g = (case next_draw g of (r, g') \<Rightarrow> (of_nat (r mod 2 ^ 53) / 2 ^ 53, g'))"

definition uniform :: "rat \<Rightarrow> rat \<Rightarrow> rng \<Rightarrow> error + (rat \<times> rng)" where
  "uniform a b g = (case random_unit g of (u, g') \<Rightarrow> Inr (a + (b - a) * u, g'))"

text \<open>\<^verbatim>\<open>round(x, ndigits)\<close>: to the nearest multiple of \<open>10\<^sup>-\<^sup>n\<close>, ties to the even one.\<close>

definition round_half_even :: "rat \<Rightarrow> int" where
  "round_half_even q =
     (let f = \<lfloor>q\<rfloor>; d = q - of_int f
      in if d < 1 / 2 then f else if 1 / 2 < d then f + 1 else if even f then f else f + 1)"

definition py_round :: "rat \<Rightarrow> nat \<Rightarrow> rat" where
  "py_round x ndigits = of_int (round_half_even (x * 10 ^ ndigits)) / 10 ^ ndigits"

subsection \<open>String formatting\<close>

definition digit_char :: "nat \<Rightarrow> char" where
  "digit_char d = char_of (48 + d)"

text \<open>The decimal digits of a natural number, most significant first.\<close>

fun str_nat :: "nat \<Rightarrow> string" where
  "str_nat n = (if n < 10 then [digit_char n] else str_nat (n div 10) @ [digit_char (n mod 10)])"

declare str_nat.simps [simp del]

text \<open>\<^verbatim>\<open>str(n)\<close>, which is also what \<^verbatim>\<open>{n}\<close> gives in an f-string.\<close>

definition py_str :: "int \<Rightarrow> string" where
  "py_str n = (if n < 0 then CHR ''-'' # str_nat (nat (- n)) else str_nat (nat n))"

definition zfill :: "nat \<Rightarrow> string \<Rightarrow> string" where
  "zfill w s = replicate (w - length s) CHR ''0'' @ s"

text \<open>
  \<^verbatim>\<open>{n:0wd}\<close>: zero padding to a width of at least \<open>w\<close>, the sign first and counted in the
  width.
\<close>

definition format_0d :: "nat \<Rightarrow> int \<Rightarrow> string" where
  "format_0d w n =
     (if n < 0 then CHR ''-'' # zfill (w - 1) (str_nat (nat (- n))) else zfill w (str_nat (nat n)))"

text \<open>\<^verbatim>\<open>s.lower()\<close> on code points below 256.\<close>

definition lower_char :: "char \<Rightarrow> char" where
  "lower_char c =
     (let k = (of_char c :: nat)
      in if (65 \<le> k \<and> k \<le> 90) \<or> (192 \<le> k \<and> k \<le> 214) \<or> (216 \<le> k \<and> k \<le> 222)
         then char_of (k + 32) else c)"

definition lower :: "string \<Rightarrow> string" where
  "lower s = map lower_char s"

section \<open>The benchmark driver: sample data pools\<close>

definition CATEGORIES :: "string list" where
  "CATEGORIES = [''performance'', ''safety'', ''environmental'', ''electrical'', ''mechanical'',
     ''thermal'', ''reliability'', ''interface'']"

definition PRIORITIES :: "string list" where
  "PRIORITIES = [''critical'', ''high'', ''medium'', ''low'']"

definition STATUSES :: "string list" where
  "STATUSES = [''draft'', ''approved'', ''review'']"

definition REQ_TYPES :: "string list" where
  "REQ_TYPES = [''input'', ''output'']"

definition RISK_TYPES :: "string list" where
  "RISK_TYPES = [''design'', ''process'']"

definition TEST_TYPES :: "string list" where
  "TEST_TYPES = [''verification'', ''validation'']"

definition TEST_LEVELS :: "string list" where
  "TEST_LEVELS = [''unit'', ''integration'', ''system'', ''acceptance'']"

definition TEST_METHODS :: "string list" where
  "TEST_METHODS = [''test'', ''inspection'', ''analysis'', ''demonstration'']"

definition MAKE_BUY :: "string list" where
  "MAKE_BUY = [''make'', ''buy'', ''buy'', ''buy'']"

definition CMP_CATEGORIES :: "string list" where
  "CMP_CATEGORIES = [''mechanical'', ''electrical'', ''fastener'', ''consumable'']"

definition ADJECTIVES :: "string list" where
  "ADJECTIVES = [''Primary'', ''Secondary'', ''Auxiliary'', ''Main'', ''Critical'', ''Standard'',
     ''Enhanced'', ''Advanced'', ''Basic'', ''Core'']"

definition NOUNS_REQ :: "string list" where
  "NOUNS_REQ = [''Temperature'', ''Pressure'', ''Speed'', ''Force'', ''Voltage'', ''Current'',
     ''Power'', ''Torque'', ''Flow'', ''Position'', ''Accuracy'', ''Repeatability'', ''Response'',
     ''Bandwidth'', ''Efficiency'', ''Life'', ''Weight'', ''Size'', ''Cost'', ''Noise'']"

definition NOUNS_CMP :: "string list" where
  "NOUNS_CMP = [''Housing'', ''Bracket'', ''Shaft'', ''Bearing'', ''Seal'', ''Motor'', ''Sensor'',
     ''Controller'', ''Connector'', ''Cable'', ''Screw'', ''Nut'', ''Washer'', ''Spring'', ''Plate'',
     ''Cover'', ''Frame'', ''Mount'', ''Clip'', ''Gasket'']"

definition NOUNS_RISK :: "string list" where
  "NOUNS_RISK = [''Failure'', ''Degradation'', ''Wear'', ''Corrosion'', ''Fatigue'', ''Overload'',
     ''Misalignment'', ''Contamination'', ''Overheating'', ''Short Circuit'', ''Leakage'',
     ''Vibration'', ''Noise'', ''Drift'', ''Interference'']"

section \<open>The benchmark driver: entity generators\<close>

text \<open>
  Each generator is a loop \<^verbatim>\<open>for i in range(n): rows.append({...})\<close>. The body of the loop
  is the function \<open>\<dots>_row\<close>: it draws from the pools in the order the statements and the
  dictionary literal evaluate them. \<open>append_rows\<close> is the loop itself, over the indices of
  \<^verbatim>\<open>range(n)\<close> (none when \<open>n\<close> is negative).
\<close>

fun append_rows ::
  "(nat \<Rightarrow> rng \<Rightarrow> error + (pydict \<times> rng)) \<Rightarrow> nat list \<Rightarrow> pydict list \<Rightarrow> rng \<Rightarrow>
   error + (pydict list \<times> rng)" where
  "append_rows body [] rows g = Inr (rows, g)"
| "append_rows body (i # is) rows g =
     (case body i g of Inl e \<Rightarrow> Inl e | Inr (row, g') \<Rightarrow> append_rows body is (rows @ [row]) g')"

definition py_range :: "int \<Rightarrow> nat list" where
  "py_range n = [0..<nat n]"

definition requirement_row :: "nat \<Rightarrow> rng \<Rightarrow> error + (pydict \<times> rng)" where
  "requirement_row i g0 =
     bnd (choice ADJECTIVES g0) (\<lambda>adj g1.
     bnd (choice NOUNS_REQ g1) (\<lambda>noun g2.
     bnd (choice CATEGORIES g2) (\<lambda>cat g3.
     bnd (choice REQ_TYPES g3) (\<lambda>rtype g4.
     bnd (choice PRIORITIES g4) (\<lambda>priority g5.
     bnd (choice STATUSES g5) (\<lambda>status g6.
     bnd (choice PRIORITIES g6) (\<lambda>tag_priority g7.
       Inr ([(''title'', VStr (adj @ '' '' @ noun @ '' Requirement '' @ py_str (int i + 1))),
             (''type'', VStr rtype),
             (''priority'', VStr priority),
             (''status'', VStr status),
             (''category'', VStr cat),
             (''text'', VStr (''The system shall meet '' @ lower noun @ '' requirements for '' @ cat
                             @ '' performance.'')),
             (''rationale'', VStr (''Required for '' @ cat @ '' compliance and system performance.'')),
             (''tags'', VStr (cat @ '','' @ tag_priority))], g7))))))))"

definition generate_requirements :: "int \<Rightarrow> rng \<Rightarrow> error + (pydict list \<times> rng)" where
  "generate_requirements n g = append_rows requirement_row (py_range n) [] g"

definition component_row :: "nat \<Rightarrow> rng \<Rightarrow> error + (pydict \<times> rng)" where
  "component_row i g0 =
     bnd (choice ADJECTIVES g0) (\<lambda>adj g1.
     bnd (choice NOUNS_CMP g1) (\<lambda>noun g2.
     bnd (choice MAKE_BUY g2) (\<lambda>mb g3.
     bnd (choice CMP_CATEGORIES g3) (\<lambda>cat g4.
     bnd (uniform (1 / 100) 2 g4) (\<lambda>m g5.
     bnd (uniform (1 / 2) 150 g5) (\<lambda>c g6.
       Inr ([(''part_number'', VStr (''PN-'' @ format_0d 4 (int i + 1))),
             (''title'', VStr (adj @ '' '' @ noun @ '' '' @ py_str (int i + 1))),
             (''make_buy'', VStr mb),
             (''category'', VStr cat),
             (''description'', VStr (adj @ '' '' @ noun @ '' for system assembly'')),
             (''material'', VStr ''Various''),
             (''finish'', VStr ''Standard''),
             (''mass'', VFloat (py_round m 3)),
             (''cost'', VFloat (py_round c 2)),
             (''tags'', VStr (cat @ '','' @ mb))], g6)))))))"

definition generate_components :: "int \<Rightarrow> rng \<Rightarrow> error + (pydict list \<times> rng)" where
  "generate_components n g = append_rows component_row (py_range n) [] g"

definition risk_row :: "nat \<Rightarrow> rng \<Rightarrow> error + (pydict \<times> rng)" where
  "risk_row i g0 =
     bnd (choice NOUNS_RISK g0) (\<lambda>noun g1.
     bnd (choice CATEGORIES g1) (\<lambda>cat g2.
     bnd (choice RISK_TYPES g2) (\<lambda>rtype g3.
     bnd (randint 1 10 g3) (\<lambda>sev g4.
     bnd (randint 1 10 g4) (\<lambda>occ g5.
     bnd (randint 1 10 g5) (\<lambda>det g6.
       Inr ([(''title'', VStr (noun @ '' Risk '' @ py_str (int i + 1))),
             (''type'', VStr rtype),
             (''category'', VStr cat),
             (''description'', VStr (''Potential '' @ lower noun @ '' in '' @ cat @ '' subsystem'')),
             (''failure_mode'', VStr (noun @ '' during operation'')),
             (''cause'', VStr (''Design or process deficiency in '' @ cat @ '' area'')),
             (''effect'', VStr (''System '' @ lower noun @ '' leading to performance degradation'')),
             (''severity'', VInt sev),
             (''occurrence'', VInt occ),
             (''detection'', VInt det),
             (''tags'', VStr (cat @ '','' @ rtype))], g6)))))))"

definition generate_risks :: "int \<Rightarrow> rng \<Rightarrow> error + (pydict list \<times> rng)" where
  "generate_risks n g = append_rows risk_row (py_range n) [] g"

definition test_row :: "nat \<Rightarrow> rng \<Rightarrow> error + (pydict \<times> rng)" where
  "test_row i g0 =
     bnd (choice ADJECTIVES g0) (\<lambda>adj g1.
     bnd (choice NOUNS_REQ g1) (\<lambda>noun g2.
     bnd (choice CATEGORIES g2) (\<lambda>cat g3.
     bnd (choice TEST_TYPES g3) (\<lambda>ttype g4.
     bnd (choice TEST_LEVELS g4) (\<lambda>level g5.
     bnd (choice TEST_METHODS g5) (\<lambda>method g6.
     bnd (choice PRIORITIES g6) (\<lambda>priority g7.
     bnd (randint 15 480 g7) (\<lambda>minutes g8.
       Inr ([(''title'', VStr (adj @ '' '' @ noun @ '' Test '' @ py_str (int i + 1))),
             (''type'', VStr ttype),
             (''level'', VStr level),
             (''method'', VStr method),
             (''category'', VStr cat),
             (''priority'', VStr priority),
             (''objective'', VStr (''Verify '' @ lower noun @ '' performance meets specification'')),
             (''description'', VStr (''Test procedure for '' @ lower noun @ '' '' @ cat
                                    @ '' requirements'')),
             (''estimated_duration'', VStr (py_str minutes @ '' min'')),
             (''tags'', VStr (cat @ '','' @ ttype))], g8)))))))))"

definition generate_tests :: "int \<Rightarrow> rng \<Rightarrow> error + (pydict list \<times> rng)" where
  "generate_tests n g = append_rows test_row (py_range n) [] g"

definition supplier_row :: "nat \<Rightarrow> rng \<Rightarrow> error + (pydict \<times> rng)" where
  "supplier_row i g0 =
     bnd (choice CMP_CATEGORIES g0) (\<lambda>cat g1.
     bnd (choice CMP_CATEGORIES g1) (\<lambda>tags g2.
       Inr ([(''name'', VStr (''Supplier Company '' @ py_str (int i + 1))),
             (''short_name'', VStr (''SUP'' @ format_0d 2 (int i + 1))),
             (''category'', VStr cat),
             (''contact_name'', VStr (''Contact '' @ py_str (int i + 1))),
             (''contact_email'', VStr (''contact'' @ py_str (int i + 1) @ ''@supplier''
                                      @ py_str (int i + 1) @ ''.example'')),
             (''contact_phone'', VStr (''+1-555-'' @ format_0d 4 (int i + 1))),
             (''website'', VStr (''https://supplier'' @ py_str (int i + 1) @ ''.example'')),
             (''tags'', VStr tags)], g2)))"

definition generate_suppliers :: "int \<Rightarrow> rng \<Rightarrow> error + (pydict list \<times> rng)" where
  "generate_suppliers n g = append_rows supplier_row (py_range n) [] g"

section \<open>The benchmark driver: files, child processes and the clock\<close>

text \<open>
  What the driver does to its environment is explicit in a state: the random generator, the
  monotonic clock (an unknown sequence of readings of \<^verbatim>\<open>time.perf_counter()\<close>), the target
  tool (the outcome of the \<open>k\<close>-th child process, which may depend on its command line and on
  everything before it), the command lines run so far, the files written, the directories
  made and the working directory. The file system is assumed to accept every operation, and
  a child process to start and to give decodable output; printing is not modelled, so a
  value that is only printed is computed and dropped. A file is held as the rows handed to
  \<^verbatim>\<open>csv.writer\<close>, each a list of cells, not as the text it renders them to.
\<close>

record completed =
  returncode :: int
  stdout :: string
  stderr :: string

record world =
  random_state :: rng
  clock :: "nat \<Rightarrow> rat"
  ticks :: nat
  tool :: "nat \<Rightarrow> string \<Rightarrow> completed"
  calls :: nat
  commands :: "string list"
  files :: "string \<Rightarrow> pyval list list option"
  dirs :: "string set"
  cwd :: string
  tempdir :: string

text \<open>A computation that only uses the random generator, run in the whole state.\<close>

definition with_random :: "(rng \<Rightarrow> error + ('a \<times> rng)) \<Rightarrow> world \<Rightarrow> error + ('a \<times> world)" where
  "with_random m w =
     (case m (random_state w) of Inl e \<Rightarrow> Inl e | Inr (v, g') \<Rightarrow> Inr (v, w\<lparr>random_state := g'\<rparr>))"

text \<open>An expression that may raise, evaluated in a state it does not change.\<close>

definition evaluate :: "error + 'a \<Rightarrow> 's \<Rightarrow> error + ('a \<times> 's)" where
  "evaluate x s = (case x of Inl e \<Rightarrow> Inl e | Inr v \<Rightarrow> Inr (v, s))"

definition perf_counter :: "world \<Rightarrow> error + (rat \<times> world)" where
  "perf_counter w = Inr (clock w (ticks w), w\<lparr>ticks := Suc (ticks w)\<rparr>)"

text \<open>
  \<^verbatim>\<open>subprocess.run(cmd, shell=True, capture_output=True, text=True)\<close>: \<^verbatim>\<open>check\<close> is not set,
  so the exit status is returned, never raised.
\<close>

definition subprocess_run :: "string \<Rightarrow> world \<Rightarrow> error + (completed \<times> world)" where
  "subprocess_run cmd w =
     Inr (tool w (calls w) cmd, w\<lparr>calls := Suc (calls w), commands := commands w @ [cmd]\<rparr>)"

definition os_path_join :: "string \<Rightarrow> string \<Rightarrow> string" where
  "os_path_join a b = (if a = [] \<or> last a = CHR ''/'' then a @ b else a @ ''/'' @ b)"

definition mkdtemp :: "world \<Rightarrow> error + (string \<times> world)" where
  "mkdtemp w = Inr (tempdir w, w\<lparr>dirs := insert (tempdir w) (dirs w)\<rparr>)"

definition makedirs :: "string \<Rightarrow> world \<Rightarrow> error + (unit \<times> world)" where
  "makedirs d w = Inr ((), w\<lparr>dirs := insert d (dirs w)\<rparr>)"

definition chdir :: "string \<Rightarrow> world \<Rightarrow> error + (unit \<times> world)" where
  "chdir d w = Inr ((), w\<lparr>cwd := d\<rparr>)"

subsection \<open>The tabular writer\<close>

text \<open>
  \<^verbatim>\<open>csv.DictWriter(f, fieldnames=headers, extrasaction='ignore')\<close> turns a dictionary into the
  row \<^verbatim>\<open>[rowdict.get(key, '') for key in fieldnames]\<close>; with \<^verbatim>\<open>extrasaction='ignore'\<close> it
  does not look at the other keys. \<^verbatim>\<open>writeheader\<close> writes the field names themselves, and
  opening the file with mode \<^verbatim>\<open>'w'\<close> replaces what it held.
\<close>

definition dict_to_list :: "string list \<Rightarrow> pydict \<Rightarrow> pyval list" where
  "dict_to_list fieldnames rowdict = map (\<lambda>key. dict_get rowdict key (VStr [])) fieldnames"

definition csv_rows :: "string list \<Rightarrow> pydict list \<Rightarrow> pyval list list" where
  "csv_rows headers rows = map VStr headers # map (dict_to_list headers) rows"

definition write_csv :: "string \<Rightarrow> string list \<Rightarrow> pydict list \<Rightarrow> world \<Rightarrow> error + (unit \<times> world)" where
  "write_csv filepath headers rows w =
     Inr ((), w\<lparr>files := (files w)(filepath \<mapsto> csv_rows headers rows)\<rparr>)"

subsection \<open>The command runner\<close>

definition run_timed :: "string \<Rightarrow> string \<Rightarrow> world \<Rightarrow> error + ((rat \<times> bool \<times> string \<times> string) \<times> world)" where
  "run_timed cmd label w0 =
     bnd (perf_counter w0) (\<lambda>start w1.
     bnd (subprocess_run cmd w1) (\<lambda>result w2.
     bnd (perf_counter w2) (\<lambda>finish w3.
       let elapsed = finish - start;
           success = (returncode result = 0)
       in Inr ((elapsed, success, stdout result, stderr result), w3))))"

subsection \<open>The orchestrator\<close>

text \<open>
  The volumes \<^verbatim>\<open>NUM_REQUIREMENTS\<close>, \<dots> and the path \<^verbatim>\<open>TDT_BIN\<close> of the target tool are
  module-level values of the script; the model reads them from a configuration, of which
  \<open>benchmark_config\<close> is the script's.
\<close>

record config =
  NUM_REQUIREMENTS :: int
  NUM_COMPONENTS :: int
  NUM_RISKS :: int
  NUM_TESTS :: int
  NUM_SUPPLIERS :: int
  TDT_BIN :: string

definition benchmark_config :: "string \<Rightarrow> config" where
  "benchmark_config tdt_bin =
     \<lparr>NUM_REQUIREMENTS = 500, NUM_COMPONENTS = 200, NUM_RISKS = 100, NUM_TESTS = 150,
      NUM_SUPPLIERS = 20, TDT_BIN = tdt_bin\<rparr>"

type_synonym timing = "string \<times> rat \<times> bool"

text \<open>True division, and the guarded throughput \<^verbatim>\<open>count / elapsed if elapsed > 0 else 0\<close>.\<close>

definition truediv :: "rat \<Rightarrow> rat \<Rightarrow> error + rat" where
  "truediv a b = (if b = 0 then Inl ZeroDivisionError else Inr (a / b))"

definition rate :: "int \<Rightarrow> rat \<Rightarrow> error + rat" where
  "rate count elapsed = (if elapsed > 0 then truediv (of_int count) elapsed else Inr 0)"

text \<open>A \<^verbatim>\<open>for\<close> loop over a literal list, its body updating the list of results.\<close>

fun for_each ::
  "('x \<Rightarrow> 'a \<Rightarrow> 's \<Rightarrow> error + ('a \<times> 's)) \<Rightarrow> 'x list \<Rightarrow> 'a \<Rightarrow> 's \<Rightarrow> error + ('a \<times> 's)" where
  "for_each body [] acc s = Inr (acc, s)"
| "for_each body (x # xs) acc s =
     (case body x acc s of Inl e \<Rightarrow> Inl e | Inr (acc', s') \<Rightarrow> for_each body xs acc' s')"

definition req_headers :: "string list" where
  "req_headers = [''title'', ''type'', ''priority'', ''status'', ''category'', ''text'',
     ''rationale'', ''tags'']"

definition cmp_headers :: "string list" where
  "cmp_headers = [''part_number'', ''title'', ''make_buy'', ''category'', ''description'',
     ''material'', ''finish'', ''mass'', ''cost'', ''tags'']"

definition risk_headers :: "string list" where
  "risk_headers = [''title'', ''type'', ''category'', ''description'', ''failure_mode'', ''cause'',
     ''effect'', ''severity'', ''occurrence'', ''detection'', ''tags'']"

definition test_headers :: "string list" where
  "test_headers = [''title'', ''type'', ''level'', ''method'', ''category'', ''priority'',
     ''objective'', ''description'', ''estimated_duration'', ''tags'']"

definition sup_headers :: "string list" where
  "sup_headers = [''name'', ''short_name'', ''category'', ''contact_name'', ''contact_email'',
     ''contact_phone'', ''website'', ''tags'']"

text \<open>"Generate CSVs": the five fixture files, between two readings of the clock.\<close>

definition generate_csvs :: "config \<Rightarrow> string \<Rightarrow> world \<Rightarrow> error + (unit \<times> world)" where
  "generate_csvs cfg csv_dir w0 =
     bnd (perf_counter w0) (\<lambda>t0 w1.
     bnd (with_random (generate_requirements (NUM_REQUIREMENTS cfg)) w1) (\<lambda>reqs w2.
     bnd (write_csv (csv_dir @ ''/requirements.csv'') req_headers reqs w2) (\<lambda>_ w3.
     bnd (with_random (generate_components (NUM_COMPONENTS cfg)) w3) (\<lambda>cmps w4.
     bnd (write_csv (csv_dir @ ''/components.csv'') cmp_headers cmps w4) (\<lambda>_ w5.
     bnd (with_random (generate_risks (NUM_RISKS cfg)) w5) (\<lambda>risks w6.
     bnd (write_csv (csv_dir @ ''/risks.csv'') risk_headers risks w6) (\<lambda>_ w7.
     bnd (with_random (generate_tests (NUM_TESTS cfg)) w7) (\<lambda>tests w8.
     bnd (write_csv (csv_dir @ ''/tests.csv'') test_headers tests w8) (\<lambda>_ w9.
     bnd (with_random (generate_suppliers (NUM_SUPPLIERS cfg)) w9) (\<lambda>sups w10.
     bnd (write_csv (csv_dir @ ''/suppliers.csv'') sup_headers sups w10) (\<lambda>_ w11.
     bnd (perf_counter w11) (\<lambda>t1 w12.
       let gen_time = t1 - t0 in Inr ((), w12)))))))))))))"

text \<open>One run of the tool whose result is recorded under the label it was run with.\<close>

definition timed_phase :: "string \<times> string \<Rightarrow> timing list \<Rightarrow> world \<Rightarrow> error + (timing list \<times> world)" where
  "timed_phase p results w0 =
     (case p of (cmd, label) \<Rightarrow>
        bnd (run_timed cmd label w0) (\<lambda>(elapsed, ok, _, _) w1.
          Inr (results @ [(label, elapsed, ok)], w1)))"

definition init_phase :: "config \<Rightarrow> timing list \<Rightarrow> world \<Rightarrow> error + (timing list \<times> world)" where
  "init_phase cfg results w0 =
     bnd (run_timed (TDT_BIN cfg @ '' init -q'') ''init'' w0) (\<lambda>(elapsed, ok, _, _) w1.
       Inr (results @ [(''tdt init'', elapsed, ok)], w1))"

definition import_plan :: "config \<Rightarrow> (string \<times> int \<times> string) list" where
  "import_plan cfg =
     [(''req'', NUM_REQUIREMENTS cfg, ''requirements.csv''),
      (''cmp'', NUM_COMPONENTS cfg, ''components.csv''),
      (''sup'', NUM_SUPPLIERS cfg, ''suppliers.csv''),
      (''risk'', NUM_RISKS cfg, ''risks.csv''),
      (''test'', NUM_TESTS cfg, ''tests.csv'')]"

definition import_phase ::
  "config \<Rightarrow> string \<Rightarrow> string \<times> int \<times> string \<Rightarrow> timing list \<Rightarrow> world \<Rightarrow> error + (timing list \<times> world)" where
  "import_phase cfg csv_dir p results w0 =
     (case p of (etype, count, csv_name) \<Rightarrow>
        bnd (run_timed (TDT_BIN cfg @ '' import '' @ etype @ '' '' @ csv_dir @ ''/'' @ csv_name)
               (''import '' @ etype) w0) (\<lambda>(elapsed, ok, _, _) w1.
        bnd (evaluate (rate count elapsed) w1) (\<lambda>rate w2.
          Inr (results @ [(''import '' @ etype @ '' ('' @ py_str count @ '')'', elapsed, ok)], w2))))"

definition total_entities :: "config \<Rightarrow> int" where
  "total_entities cfg =
     NUM_REQUIREMENTS cfg + NUM_COMPONENTS cfg + NUM_RISKS cfg + NUM_TESTS cfg + NUM_SUPPLIERS cfg"

definition validate_phase :: "config \<Rightarrow> timing list \<Rightarrow> world \<Rightarrow> error + (timing list \<times> world)" where
  "validate_phase cfg results w0 =
     bnd (run_timed (TDT_BIN cfg @ '' validate'') ''validate'' w0) (\<lambda>(elapsed, ok, _, _) w1.
     bnd (evaluate (rate (total_entities cfg) elapsed) w1) (\<lambda>rate w2.
       Inr (results @ [(''validate'', elapsed, ok)], w2)))"

definition validate_fix_phase :: "config \<Rightarrow> timing list \<Rightarrow> world \<Rightarrow> error + (timing list \<times> world)" where
  "validate_fix_phase cfg results w0 =
     bnd (run_timed (TDT_BIN cfg @ '' validate --fix'') ''validate --fix'' w0) (\<lambda>(elapsed, ok, _, _) w1.
       Inr (results @ [(''validate --fix'', elapsed, ok)], w1))"

definition list_plan :: "config \<Rightarrow> (string \<times> string) list" where
  "list_plan cfg =
     [(TDT_BIN cfg @ '' req list'', ''req list ('' @ py_str (NUM_REQUIREMENTS cfg) @ '')''),
      (TDT_BIN cfg @ '' cmp list'', ''cmp list ('' @ py_str (NUM_COMPONENTS cfg) @ '')''),
      (TDT_BIN cfg @ '' risk list'', ''risk list ('' @ py_str (NUM_RISKS cfg) @ '')''),
      (TDT_BIN cfg @ '' test list'', ''test list ('' @ py_str (NUM_TESTS cfg) @ '')''),
      (TDT_BIN cfg @ '' req list --format json'', ''req list --format json''),
      (TDT_BIN cfg @ '' req list --priority critical'', ''req list --priority critical''),
      (TDT_BIN cfg @ '' risk list --by-rpn'', ''risk list --by-rpn''),
      (TDT_BIN cfg @ '' req list --count'', ''req list --count'')]"

definition status_plan :: "config \<Rightarrow> (string \<times> string) list" where
  "status_plan cfg =
     [(TDT_BIN cfg @ '' status'', ''status''),
      (TDT_BIN cfg @ '' status --detailed'', ''status --detailed''),
      (TDT_BIN cfg @ '' report rvm'', ''report rvm''),
      (TDT_BIN cfg @ '' report fmea'', ''report fmea''),
      (TDT_BIN cfg @ '' report test-status'', ''report test-status''),
      (TDT_BIN cfg @ '' report open-issues'', ''report open-issues''),
      (TDT_BIN cfg @ '' trace matrix'', ''trace matrix'')]"

definition cache_plan :: "config \<Rightarrow> (string \<times> string) list" where
  "cache_plan cfg =
     [(TDT_BIN cfg @ '' cache status'', ''cache status''),
      (TDT_BIN cfg @ '' cache rebuild'', ''cache rebuild''),
      (TDT_BIN cfg @ '' cache rebuild'', ''cache rebuild (warm)'')]"

text \<open>
  The values of the summary block: \<^verbatim>\<open>total_entities\<close>, \<^verbatim>\<open>total_time\<close>,
  \<^verbatim>\<open>len(results)\<close> and \<^verbatim>\<open>failed\<close>, with the list of results they are computed from.
\<close>

record summary =
  results :: "timing list"
  entities :: int
  total_time :: rat
  operations_run :: nat
  failed :: nat

definition summarise :: "config \<Rightarrow> timing list \<Rightarrow> summary" where
  "summarise cfg rs =
     \<lparr>results = rs,
      entities = total_entities cfg,
      total_time = sum_list (map (\<lambda>r. fst (snd r)) rs),
      operations_run = length rs,
      failed = sum_list (map (\<lambda>r. 1) (filter (\<lambda>r. \<not> snd (snd r)) rs))\<rparr>"

definition main :: "config \<Rightarrow> world \<Rightarrow> error + (summary \<times> world)" where
  "main cfg w0 =
     bnd (mkdtemp w0) (\<lambda>work_dir w1.
     let csv_dir = os_path_join work_dir ''csvs'';
         project_dir = os_path_join work_dir ''project''
     in
     bnd (makedirs csv_dir w1) (\<lambda>_ w2.
     bnd (makedirs project_dir w2) (\<lambda>_ w3.
     bnd (generate_csvs cfg csv_dir w3) (\<lambda>_ w4.
     bnd (chdir project_dir w4) (\<lambda>_ w5.
     bnd (init_phase cfg [] w5) (\<lambda>results w6.
     bnd (for_each (import_phase cfg csv_dir) (import_plan cfg) results w6) (\<lambda>results w7.
     bnd (validate_phase cfg results w7) (\<lambda>results w8.
     bnd (validate_fix_phase cfg results w8) (\<lambda>results w9.
     bnd (for_each timed_phase (list_plan cfg) results w9) (\<lambda>results w10.
     bnd (for_each timed_phase (status_plan cfg) results w10) (\<lambda>results w11.
     bnd (for_each timed_phase (cache_plan cfg) results w11) (\<lambda>results w12.
       Inr (summarise cfg results, w12)))))))))))))"

section \<open>The baseline-fixture generator\<close>

text \<open>
  \<^verbatim>\<open>scripts/generate_baseline.py\<close> writes five hand-written tables. It imports module
  \<^verbatim>\<open>random\<close> and never calls it. A float literal is the decimal fraction it is written as.
\<close>

definition REQUIREMENTS :: "pydict list" where
  "REQUIREMENTS =
    [[(''title'', VStr ''Stroke Length''), (''type'', VStr ''input''),
      (''priority'', VStr ''critical''), (''status'', VStr ''approved''),
      (''text'', VStr (''The actuator shall have a stroke length of 150mm '' @ [CHR 0xB1] @ '' 1mm'')),
      (''category'', VStr ''performance''),
      (''rationale'', VStr ''Required for full range of motion in target application''),
      (''tags'', VStr ''mechanical,critical'')],
     [(''title'', VStr ''Maximum Force''), (''type'', VStr ''input''),
      (''priority'', VStr ''critical''), (''status'', VStr ''approved''),
      (''text'', VStr ''The actuator shall produce a minimum of 500N continuous force''),
      (''category'', VStr ''performance''),
      (''rationale'', VStr ''Load requirements from customer specification''),
      (''tags'', VStr ''mechanical,force'')],
     [(''title'', VStr ''Speed Range''), (''type'', VStr ''input''), (''priority'', VStr ''high''),
      (''status'', VStr ''approved''),
      (''text'', VStr ''The actuator shall achieve speeds from 5mm/s to 50mm/s''),
      (''category'', VStr ''performance''),
      (''rationale'', VStr ''Variable speed required for different operating modes''),
      (''tags'', VStr ''mechanical,speed'')],
     [(''title'', VStr ''Positioning Accuracy''), (''type'', VStr ''input''),
      (''priority'', VStr ''high''), (''status'', VStr ''approved''),
      (''text'', VStr (''Position repeatability shall be '' @ [CHR 0xB1] @ ''0.1mm'')),
      (''category'', VStr ''performance''),
      (''rationale'', VStr ''Precision positioning required for automation application''),
      (''tags'', VStr ''mechanical,precision'')],
     [(''title'', VStr ''Duty Cycle''), (''type'', VStr ''input''),
      (''priority'', VStr ''medium''), (''status'', VStr ''approved''),
      (''text'', VStr ''The actuator shall operate at 25% duty cycle minimum''),
      (''category'', VStr ''performance''),
      (''rationale'', VStr ''Industrial application requires sustained operation''),
      (''tags'', VStr ''electrical,thermal'')],
     [(''title'', VStr ''Operating Temperature''), (''type'', VStr ''input''),
      (''priority'', VStr ''high''), (''status'', VStr ''approved''),
      (''text'', VStr (''The actuator shall operate from -20'' @ [CHR 0xB0] @ ''C to +50'' @ [CHR 0xB0] @ ''C ambient'')),
      (''category'', VStr ''environmental''),
      (''rationale'', VStr ''Industrial environment temperature range''),
      (''tags'', VStr ''environmental,thermal'')],
     [(''title'', VStr ''IP Rating''), (''type'', VStr ''input''), (''priority'', VStr ''high''),
      (''status'', VStr ''approved''),
      (''text'', VStr ''The actuator shall meet IP65 ingress protection''),
      (''category'', VStr ''environmental''),
      (''rationale'', VStr ''Protection against dust and water jets required''),
      (''tags'', VStr ''environmental,sealing'')],
     [(''title'', VStr ''Vibration Resistance''), (''type'', VStr ''input''),
      (''priority'', VStr ''medium''), (''status'', VStr ''approved''),
      (''text'', VStr ''The actuator shall withstand 2G vibration 10-500Hz''),
      (''category'', VStr ''environmental''),
      (''rationale'', VStr ''Mounted on vibrating machinery''),
      (''tags'', VStr ''environmental,mechanical'')],
     [(''title'', VStr ''EMC Compliance''), (''type'', VStr ''input''),
      (''priority'', VStr ''medium''), (''status'', VStr ''approved''),
      (''text'', VStr ''The actuator shall comply with EN 61000-6-2 and EN 61000-6-4''),
      (''category'', VStr ''environmental''), (''rationale'', VStr ''Required for CE marking''),
      (''tags'', VStr ''electrical,regulatory'')],
     [(''title'', VStr ''Input Voltage''), (''type'', VStr ''input''),
      (''priority'', VStr ''critical''), (''status'', VStr ''approved''),
      (''text'', VStr (''The actuator shall operate from 24VDC '' @ [CHR 0xB1] @ ''10%'')),
      (''category'', VStr ''electrical''),
      (''rationale'', VStr ''Standard industrial control voltage''),
      (''tags'', VStr ''electrical,power'')],
     [(''title'', VStr ''Power Consumption''), (''type'', VStr ''input''),
      (''priority'', VStr ''medium''), (''status'', VStr ''approved''),
      (''text'', VStr ''Maximum power consumption shall not exceed 150W''),
      (''category'', VStr ''electrical''),
      (''rationale'', VStr ''Power budget constraint from system design''),
      (''tags'', VStr ''electrical,power'')],
     [(''title'', VStr ''Control Interface''), (''type'', VStr ''input''),
      (''priority'', VStr ''high''), (''status'', VStr ''approved''),
      (''text'', VStr ''The actuator shall provide RS-485 Modbus RTU interface''),
      (''category'', VStr ''electrical''),
      (''rationale'', VStr ''Integration with industrial PLCs''),
      (''tags'', VStr ''electrical,interface'')],
     [(''title'', VStr ''Feedback Signal''), (''type'', VStr ''input''),
      (''priority'', VStr ''high''), (''status'', VStr ''approved''),
      (''text'', VStr ''The actuator shall provide analog 0-10V position feedback''),
      (''category'', VStr ''electrical''),
      (''rationale'', VStr ''Closed-loop position control requirement''),
      (''tags'', VStr ''electrical,feedback'')],
     [(''title'', VStr ''Mounting Interface''), (''type'', VStr ''input''),
      (''priority'', VStr ''medium''), (''status'', VStr ''approved''),
      (''text'', VStr ''The actuator shall have ISO 15552 compliant mounting''),
      (''category'', VStr ''mechanical''),
      (''rationale'', VStr ''Standard mounting for easy integration''),
      (''tags'', VStr ''mechanical,interface'')],
     [(''title'', VStr ''Rod End Connection''), (''type'', VStr ''input''),
      (''priority'', VStr ''medium''), (''status'', VStr ''approved''),
      (''text'', VStr ''The actuator rod shall have M10x1.25 male thread''),
      (''category'', VStr ''mechanical''),
      (''rationale'', VStr ''Standard thread for load attachment''),
      (''tags'', VStr ''mechanical,interface'')],
     [(''title'', VStr ''Weight Limit''), (''type'', VStr ''input''), (''priority'', VStr ''low''),
      (''status'', VStr ''approved''),
      (''text'', VStr ''Total actuator weight shall not exceed 3.5kg''),
      (''category'', VStr ''mechanical''),
      (''rationale'', VStr ''Installation handling requirement''),
      (''tags'', VStr ''mechanical,weight'')],
     [(''title'', VStr ''Overload Protection''), (''type'', VStr ''input''),
      (''priority'', VStr ''critical''), (''status'', VStr ''approved''),
      (''text'', VStr ''The actuator shall detect and respond to overload within 100ms''),
      (''category'', VStr ''safety''),
      (''rationale'', VStr ''Prevent damage from obstruction or jamming''),
      (''tags'', VStr ''safety,protection'')],
     [(''title'', VStr ''Limit Switches''), (''type'', VStr ''input''),
      (''priority'', VStr ''high''), (''status'', VStr ''approved''),
      (''text'', VStr ''The actuator shall have adjustable end-of-travel limits''),
      (''category'', VStr ''safety''),
      (''rationale'', VStr ''Prevent mechanical over-travel damage''),
      (''tags'', VStr ''safety,mechanical'')],
     [(''title'', VStr ''Manual Override''), (''type'', VStr ''input''),
      (''priority'', VStr ''medium''), (''status'', VStr ''approved''),
      (''text'', VStr ''The actuator shall allow manual movement when unpowered''),
      (''category'', VStr ''safety''), (''rationale'', VStr ''Emergency release capability''),
      (''tags'', VStr ''safety,manual'')],
     [(''title'', VStr ''Design Life''), (''type'', VStr ''input''), (''priority'', VStr ''high''),
      (''status'', VStr ''approved''),
      (''text'', VStr ''The actuator shall achieve 1 million full stroke cycles minimum''),
      (''category'', VStr ''reliability''),
      (''rationale'', VStr ''5-year service life at expected usage rate''),
      (''tags'', VStr ''reliability,life'')],
     [(''title'', VStr ''MTBF''), (''type'', VStr ''input''), (''priority'', VStr ''medium''),
      (''status'', VStr ''approved''),
      (''text'', VStr ''MTBF shall exceed 50,000 operating hours''),
      (''category'', VStr ''reliability''),
      (''rationale'', VStr ''Industrial reliability requirement''),
      (''tags'', VStr ''reliability,mtbf'')],
     [(''title'', VStr ''Motor Selection''), (''type'', VStr ''output''),
      (''priority'', VStr ''high''), (''status'', VStr ''approved''),
      (''text'', VStr ''Motor shall be NEMA 23 brushless DC, minimum 0.5Nm continuous torque''),
      (''category'', VStr ''electrical''),
      (''rationale'', VStr ''Derived from force and speed requirements''),
      (''tags'', VStr ''electrical,motor'')],
     [(''title'', VStr ''Lead Screw Pitch''), (''type'', VStr ''output''),
      (''priority'', VStr ''high''), (''status'', VStr ''approved''),
      (''text'', VStr ''Lead screw pitch shall be 5mm for optimal speed/force tradeoff''),
      (''category'', VStr ''mechanical''),
      (''rationale'', VStr ''Calculated from speed and force requirements''),
      (''tags'', VStr ''mechanical,drivetrain'')],
     [(''title'', VStr ''Bearing Selection''), (''type'', VStr ''output''),
      (''priority'', VStr ''medium''), (''status'', VStr ''approved''),
      (''text'', VStr ''Support bearings shall be angular contact with C3 clearance''),
      (''category'', VStr ''mechanical''),
      (''rationale'', VStr ''Required for axial load and temperature range''),
      (''tags'', VStr ''mechanical,bearings'')],
     [(''title'', VStr ''Seal Design''), (''type'', VStr ''output''),
      (''priority'', VStr ''high''), (''status'', VStr ''approved''),
      (''text'', VStr ''Rod seal shall be double-lip NBR with dust wiper''),
      (''category'', VStr ''mechanical''),
      (''rationale'', VStr ''Required for IP65 rating at operating temperature''),
      (''tags'', VStr ''mechanical,sealing'')]]"

definition COMPONENTS :: "pydict list" where
  "COMPONENTS =
    [[(''part_number'', VStr ''LA-HSG-001''), (''title'', VStr ''Main Housing''),
      (''make_buy'', VStr ''make''), (''category'', VStr ''mechanical''),
      (''description'', VStr ''Extruded aluminum housing with machined features''),
      (''material'', VStr ''6063-T6 Aluminum''), (''finish'', VStr ''Clear anodize''),
      (''mass'', VFloat (850 / 1000)), (''cost'', VFloat (4500 / 100)),
      (''tags'', VStr ''structural,machined'')],
     [(''part_number'', VStr ''LA-CAP-001''), (''title'', VStr ''Front End Cap''),
      (''make_buy'', VStr ''make''), (''category'', VStr ''mechanical''),
      (''description'', VStr ''Machined end cap with seal groove and bearing bore''),
      (''material'', VStr ''6061-T6 Aluminum''), (''finish'', VStr ''Clear anodize''),
      (''mass'', VFloat (120 / 1000)), (''cost'', VFloat (1800 / 100)),
      (''tags'', VStr ''structural,machined'')],
     [(''part_number'', VStr ''LA-CAP-002''), (''title'', VStr ''Rear End Cap''),
      (''make_buy'', VStr ''make''), (''category'', VStr ''mechanical''),
      (''description'', VStr ''Machined end cap with motor mount and bearing bore''),
      (''material'', VStr ''6061-T6 Aluminum''), (''finish'', VStr ''Clear anodize''),
      (''mass'', VFloat (180 / 1000)), (''cost'', VFloat (2200 / 100)),
      (''tags'', VStr ''structural,machined'')],
     [(''part_number'', VStr ''LA-ROD-001''), (''title'', VStr ''Extension Rod''),
      (''make_buy'', VStr ''make''), (''category'', VStr ''mechanical''),
      (''description'', VStr ''Ground and chrome plated piston rod''),
      (''material'', VStr ''1045 Steel''), (''finish'', VStr ''Hard chrome''),
      (''mass'', VFloat (340 / 1000)), (''cost'', VFloat (3500 / 100)),
      (''tags'', VStr ''precision,ground'')],
     [(''part_number'', VStr ''LA-NUT-001''), (''title'', VStr ''Lead Screw Nut''),
      (''make_buy'', VStr ''make''), (''category'', VStr ''mechanical''),
      (''description'', VStr ''Bronze lead screw nut with anti-backlash feature''),
      (''material'', VStr ''C93200 Bronze''), (''finish'', VStr ''As machined''),
      (''mass'', VFloat (85 / 1000)), (''cost'', VFloat (2800 / 100)),
      (''tags'', VStr ''precision,wear'')],
     [(''part_number'', VStr ''LA-SCR-001''), (''title'', VStr ''Lead Screw''),
      (''make_buy'', VStr ''buy''), (''category'', VStr ''mechanical''),
      (''description'', VStr ''Precision ground lead screw Tr16x5''),
      (''material'', VStr ''1045 Steel hardened''), (''finish'', VStr ''Black oxide''),
      (''mass'', VFloat (420 / 1000)), (''cost'', VFloat (6500 / 100)),
      (''tags'', VStr ''precision,drivetrain'')],
     [(''part_number'', VStr ''LA-BRG-001''), (''title'', VStr ''Front Bearing''),
      (''make_buy'', VStr ''buy''), (''category'', VStr ''mechanical''),
      (''description'', VStr ''Angular contact bearing 6002-2RS''),
      (''material'', VStr ''52100 Steel''), (''finish'', VStr ''Standard''),
      (''mass'', VFloat (32 / 1000)), (''cost'', VFloat (850 / 100)),
      (''tags'', VStr ''bearing,precision'')],
     [(''part_number'', VStr ''LA-BRG-002''), (''title'', VStr ''Rear Bearing''),
      (''make_buy'', VStr ''buy''), (''category'', VStr ''mechanical''),
      (''description'', VStr ''Deep groove bearing 6003-2RS''),
      (''material'', VStr ''52100 Steel''), (''finish'', VStr ''Standard''),
      (''mass'', VFloat (42 / 1000)), (''cost'', VFloat (650 / 100)),
      (''tags'', VStr ''bearing,support'')],
     [(''part_number'', VStr ''LA-SEL-001''), (''title'', VStr ''Rod Seal''),
      (''make_buy'', VStr ''buy''), (''category'', VStr ''mechanical''),
      (''description'', VStr ''Double-lip rod seal 16x24x7''), (''material'', VStr ''NBR rubber''),
      (''finish'', VStr ''Standard''), (''mass'', VFloat (8 / 1000)),
      (''cost'', VFloat (325 / 100)), (''tags'', VStr ''seal,wear'')],
     [(''part_number'', VStr ''LA-SEL-002''), (''title'', VStr ''Dust Wiper''),
      (''make_buy'', VStr ''buy''), (''category'', VStr ''mechanical''),
      (''description'', VStr ''Polyurethane dust wiper 16x22x4''),
      (''material'', VStr ''Polyurethane''), (''finish'', VStr ''Standard''),
      (''mass'', VFloat (4 / 1000)), (''cost'', VFloat (185 / 100)),
      (''tags'', VStr ''seal,protection'')],
     [(''part_number'', VStr ''LA-ORI-001''), (''title'', VStr ''End Cap O-Ring''),
      (''make_buy'', VStr ''buy''), (''category'', VStr ''mechanical''),
      (''description'', VStr ''Static O-ring 45x3.5 NBR 70A''),
      (''material'', VStr ''NBR rubber''), (''finish'', VStr ''Standard''),
      (''mass'', VFloat (6 / 1000)), (''cost'', VFloat (45 / 100)),
      (''tags'', VStr ''seal,static'')],
     [(''part_number'', VStr ''LA-MOT-001''), (''title'', VStr ''BLDC Motor''),
      (''make_buy'', VStr ''buy''), (''category'', VStr ''electrical''),
      (''description'', VStr ''NEMA 23 brushless DC motor 24V 0.6Nm''),
      (''material'', VStr ''Various''), (''finish'', VStr ''Black powder coat''),
      (''mass'', VFloat (580 / 1000)), (''cost'', VFloat (8500 / 100)),
      (''tags'', VStr ''motor,drivetrain'')],
     [(''part_number'', VStr ''LA-ENC-001''), (''title'', VStr ''Rotary Encoder''),
      (''make_buy'', VStr ''buy''), (''category'', VStr ''electrical''),
      (''description'', VStr ''Incremental encoder 1000 PPR''), (''material'', VStr ''Various''),
      (''finish'', VStr ''Standard''), (''mass'', VFloat (45 / 1000)),
      (''cost'', VFloat (2800 / 100)), (''tags'', VStr ''sensor,feedback'')],
     [(''part_number'', VStr ''LA-DRV-001''), (''title'', VStr ''Motor Driver''),
      (''make_buy'', VStr ''buy''), (''category'', VStr ''electrical''),
      (''description'', VStr ''BLDC motor driver module 24V 10A''),
      (''material'', VStr ''PCB assembly''), (''finish'', VStr ''Conformal coat''),
      (''mass'', VFloat (65 / 1000)), (''cost'', VFloat (4200 / 100)),
      (''tags'', VStr ''electronics,control'')],
     [(''part_number'', VStr ''LA-LIM-001''), (''title'', VStr ''Limit Switch''),
      (''make_buy'', VStr ''buy''), (''category'', VStr ''electrical''),
      (''description'', VStr ''Micro limit switch with lever''), (''material'', VStr ''Various''),
      (''finish'', VStr ''Standard''), (''mass'', VFloat (12 / 1000)),
      (''cost'', VFloat (280 / 100)), (''tags'', VStr ''sensor,safety'')],
     [(''part_number'', VStr ''LA-CON-001''), (''title'', VStr ''Power Connector''),
      (''make_buy'', VStr ''buy''), (''category'', VStr ''electrical''),
      (''description'', VStr ''M12 4-pin power connector IP67''),
      (''material'', VStr ''Brass/plastic''), (''finish'', VStr ''Nickel plate''),
      (''mass'', VFloat (25 / 1000)), (''cost'', VFloat (850 / 100)),
      (''tags'', VStr ''connector,interface'')],
     [(''part_number'', VStr ''LA-CON-002''), (''title'', VStr ''Signal Connector''),
      (''make_buy'', VStr ''buy''), (''category'', VStr ''electrical''),
      (''description'', VStr ''M12 8-pin signal connector IP67''),
      (''material'', VStr ''Brass/plastic''), (''finish'', VStr ''Nickel plate''),
      (''mass'', VFloat (28 / 1000)), (''cost'', VFloat (1200 / 100)),
      (''tags'', VStr ''connector,interface'')],
     [(''part_number'', VStr ''LA-FST-001''), (''title'', VStr ''End Cap Screws''),
      (''make_buy'', VStr ''buy''), (''category'', VStr ''fastener''),
      (''description'', VStr ''M4x12 socket head cap screw A2-70''),
      (''material'', VStr ''Stainless steel''), (''finish'', VStr ''Passivated''),
      (''mass'', VFloat (3 / 1000)), (''cost'', VFloat (8 / 100)),
      (''tags'', VStr ''fastener,assembly'')],
     [(''part_number'', VStr ''LA-FST-002''), (''title'', VStr ''Motor Mount Screws''),
      (''make_buy'', VStr ''buy''), (''category'', VStr ''fastener''),
      (''description'', VStr ''M3x8 socket head cap screw A2-70''),
      (''material'', VStr ''Stainless steel''), (''finish'', VStr ''Passivated''),
      (''mass'', VFloat (2 / 1000)), (''cost'', VFloat (6 / 100)),
      (''tags'', VStr ''fastener,assembly'')],
     [(''part_number'', VStr ''LA-CON-003''), (''title'', VStr ''Thread Locker''),
      (''make_buy'', VStr ''buy''), (''category'', VStr ''consumable''),
      (''description'', VStr ''Loctite 243 medium strength''),
      (''material'', VStr ''Anaerobic adhesive''), (''finish'', VStr ''N/A''),
      (''mass'', VFloat (1 / 1000)), (''cost'', VFloat (15 / 100)),
      (''tags'', VStr ''consumable,assembly'')]]"

definition SUPPLIERS :: "pydict list" where
  "SUPPLIERS =
    [[(''name'', VStr ''Precision Motion Systems''), (''short_name'', VStr ''PMS''),
      (''category'', VStr ''drivetrain''), (''contact_name'', VStr ''Mike Chen''),
      (''contact_email'', VStr ''mchen@precisionmotion.example''),
      (''contact_phone'', VStr ''+1-555-0101''),
      (''website'', VStr ''https://precisionmotion.example''),
      (''tags'', VStr ''motors,screws,bearings'')],
     [(''name'', VStr ''Allied Sealing Technologies''), (''short_name'', VStr ''AST''),
      (''category'', VStr ''sealing''), (''contact_name'', VStr ''Sarah Johnson''),
      (''contact_email'', VStr ''sjohnson@alliedsealing.example''),
      (''contact_phone'', VStr ''+1-555-0102''),
      (''website'', VStr ''https://alliedsealing.example''), (''tags'', VStr ''seals,orings'')],
     [(''name'', VStr ''Global Electronics Supply''), (''short_name'', VStr ''GES''),
      (''category'', VStr ''electronics''), (''contact_name'', VStr ''David Park''),
      (''contact_email'', VStr ''dpark@globalelec.example''),
      (''contact_phone'', VStr ''+1-555-0103''),
      (''website'', VStr ''https://globalelec.example''),
      (''tags'', VStr ''electronics,connectors,sensors'')],
     [(''name'', VStr ''MetalWorks CNC''), (''short_name'', VStr ''MWCNC''),
      (''category'', VStr ''machining''), (''contact_name'', VStr ''Tom Williams''),
      (''contact_email'', VStr ''twilliams@metalworkscnc.example''),
      (''contact_phone'', VStr ''+1-555-0104''),
      (''website'', VStr ''https://metalworkscnc.example''), (''tags'', VStr ''machining,make'')],
     [(''name'', VStr ''FastenerWorld''), (''short_name'', VStr ''FW''),
      (''category'', VStr ''fasteners''), (''contact_name'', VStr ''Lisa Brown''),
      (''contact_email'', VStr ''lbrown@fastenerworld.example''),
      (''contact_phone'', VStr ''+1-555-0105''),
      (''website'', VStr ''https://fastenerworld.example''),
      (''tags'', VStr ''fasteners,hardware'')]]"

definition RISKS :: "pydict list" where
  "RISKS =
    [[(''title'', VStr ''Motor Overheating''), (''type'', VStr ''design''),
      (''category'', VStr ''thermal''),
      (''description'', VStr ''Motor may overheat under continuous high-load operation''),
      (''failure_mode'', VStr ''Thermal shutdown or winding damage during extended operation''),
      (''cause'', VStr ''Insufficient heat dissipation path from motor to housing''),
      (''effect'', VStr ''System shutdown, potential motor damage, warranty returns''),
      (''severity'', VInt 7), (''occurrence'', VInt 4), (''detection'', VInt 5),
      (''tags'', VStr ''thermal,motor'')],
     [(''title'', VStr ''Lead Screw Wear''), (''type'', VStr ''design''),
      (''category'', VStr ''wear''),
      (''description'', VStr ''Accelerated wear on lead screw nut interface''),
      (''failure_mode'', VStr ''Excessive backlash and positioning error over time''),
      (''cause'', VStr ''Inadequate lubrication or contamination ingress''),
      (''effect'', VStr ''Degraded positioning accuracy, shortened service life''),
      (''severity'', VInt 6), (''occurrence'', VInt 5), (''detection'', VInt 6),
      (''tags'', VStr ''wear,drivetrain'')],
     [(''title'', VStr ''Seal Failure''), (''type'', VStr ''design''),
      (''category'', VStr ''sealing''),
      (''description'', VStr ''Rod seal may fail under extreme temperature cycling''),
      (''failure_mode'', VStr ''Seal extrusion or hardening leading to leakage''),
      (''cause'', VStr ''Temperature cycling beyond seal material limits''),
      (''effect'', VStr ''Loss of IP65 rating, contamination ingress''), (''severity'', VInt 8),
      (''occurrence'', VInt 3), (''detection'', VInt 4),
      (''tags'', VStr ''sealing,environmental'')],
     [(''title'', VStr ''Encoder Miscounting''), (''type'', VStr ''design''),
      (''category'', VStr ''electrical''),
      (''description'', VStr ''Encoder may miscount under EMI conditions''),
      (''failure_mode'', VStr ''Position feedback errors and drift''),
      (''cause'', VStr ''Insufficient EMI shielding on encoder signals''),
      (''effect'', VStr ''Positioning errors, potential safety issue''), (''severity'', VInt 7),
      (''occurrence'', VInt 3), (''detection'', VInt 5), (''tags'', VStr ''electrical,emc'')],
     [(''title'', VStr ''Bearing Preload Loss''), (''type'', VStr ''design''),
      (''category'', VStr ''mechanical''),
      (''description'', VStr ''Angular contact bearing preload may change with temperature''),
      (''failure_mode'', VStr ''Increased axial play or excessive preload''),
      (''cause'', VStr ''Differential thermal expansion in bearing assembly''),
      (''effect'', VStr ''Reduced life, noise, or binding''), (''severity'', VInt 5),
      (''occurrence'', VInt 4), (''detection'', VInt 6), (''tags'', VStr ''mechanical,bearings'')],
     [(''title'', VStr ''Housing Bore Tolerance''), (''type'', VStr ''process''),
      (''category'', VStr ''machining''),
      (''description'', VStr ''Housing bore may go out of tolerance''),
      (''failure_mode'', VStr ''Bore diameter or concentricity out of specification''),
      (''cause'', VStr ''Tool wear, thermal growth, or setup error''),
      (''effect'', VStr ''Bearing fit issues, assembly problems''), (''severity'', VInt 6),
      (''occurrence'', VInt 4), (''detection'', VInt 3),
      (''tags'', VStr ''machining,dimensional'')],
     [(''title'', VStr ''Anodize Thickness Variation''), (''type'', VStr ''process''),
      (''category'', VStr ''finishing''),
      (''description'', VStr ''Anodize coating may have thickness variation''),
      (''failure_mode'', VStr ''Uneven or out-of-spec coating thickness''),
      (''cause'', VStr ''Bath chemistry variation or rack positioning''),
      (''effect'', VStr ''Fit issues with bearings, cosmetic defects''), (''severity'', VInt 4),
      (''occurrence'', VInt 5), (''detection'', VInt 4), (''tags'', VStr ''finishing,surface'')],
     [(''title'', VStr ''Wrong Fastener Torque''), (''type'', VStr ''process''),
      (''category'', VStr ''assembly''),
      (''description'', VStr ''Fasteners may be under or over-torqued''),
      (''failure_mode'', VStr ''Loose or stripped fasteners''),
      (''cause'', VStr ''Operator error or uncalibrated tools''),
      (''effect'', VStr ''Assembly loosening in service or stripped threads''),
      (''severity'', VInt 6), (''occurrence'', VInt 4), (''detection'', VInt 5),
      (''tags'', VStr ''assembly,fastener'')],
     [(''title'', VStr ''Seal Installation Damage''), (''type'', VStr ''process''),
      (''category'', VStr ''assembly''),
      (''description'', VStr ''Seals may be damaged during installation''),
      (''failure_mode'', VStr ''Cut, twisted, or improperly seated seal''),
      (''cause'', VStr ''Sharp edges, improper technique, or missing lubrication''),
      (''effect'', VStr ''Immediate or premature seal failure''), (''severity'', VInt 7),
      (''occurrence'', VInt 4), (''detection'', VInt 5), (''tags'', VStr ''assembly,sealing'')],
     [(''title'', VStr ''Motor-Screw Misalignment''), (''type'', VStr ''process''),
      (''category'', VStr ''assembly''),
      (''description'', VStr ''Motor shaft may be misaligned with lead screw''),
      (''failure_mode'', VStr ''Angular or parallel misalignment''),
      (''cause'', VStr ''Tolerance stackup or coupling installation error''),
      (''effect'', VStr ''Vibration, noise, reduced bearing life''), (''severity'', VInt 5),
      (''occurrence'', VInt 5), (''detection'', VInt 4), (''tags'', VStr ''assembly,alignment'')]]"

definition TESTS :: "pydict list" where
  "TESTS =
    [[(''title'', VStr ''Stroke Length Verification''), (''type'', VStr ''verification''),
      (''level'', VStr ''system''), (''method'', VStr ''test''),
      (''category'', VStr ''dimensional''), (''priority'', VStr ''critical''),
      (''objective'', VStr ''Verify actuator achieves specified stroke length''),
      (''description'', VStr ''Measure full stroke extension and retraction using calibrated linear scale''),
      (''estimated_duration'', VStr ''15 min''), (''tags'', VStr ''dimensional,critical'')],
     [(''title'', VStr ''Force Output Test''), (''type'', VStr ''verification''),
      (''level'', VStr ''system''), (''method'', VStr ''test''),
      (''category'', VStr ''performance''), (''priority'', VStr ''critical''),
      (''objective'', VStr ''Verify actuator produces specified continuous force''),
      (''description'', VStr ''Apply increasing load via dynamometer until stall, measure continuous force capability''),
      (''estimated_duration'', VStr ''30 min''), (''tags'', VStr ''force,performance'')],
     [(''title'', VStr ''Speed Range Verification''), (''type'', VStr ''verification''),
      (''level'', VStr ''system''), (''method'', VStr ''test''),
      (''category'', VStr ''performance''), (''priority'', VStr ''high''),
      (''objective'', VStr ''Verify actuator speed range meets specification''),
      (''description'', VStr ''Measure extension/retraction speed at min and max settings using high-speed camera or laser''),
      (''estimated_duration'', VStr ''20 min''), (''tags'', VStr ''speed,performance'')],
     [(''title'', VStr ''Position Repeatability Test''), (''type'', VStr ''verification''),
      (''level'', VStr ''system''), (''method'', VStr ''test''),
      (''category'', VStr ''performance''), (''priority'', VStr ''high''),
      (''objective'', VStr ''Verify position repeatability specification''),
      (''description'', VStr ''Command 10 cycles to same position, measure variation with dial indicator''),
      (''estimated_duration'', VStr ''45 min''), (''tags'', VStr ''precision,performance'')],
     [(''title'', VStr ''IP65 Ingress Test''), (''type'', VStr ''verification''),
      (''level'', VStr ''system''), (''method'', VStr ''test''),
      (''category'', VStr ''environmental''), (''priority'', VStr ''high''),
      (''objective'', VStr ''Verify IP65 dust and water jet protection''),
      (''description'', VStr ''Subject to dust chamber test and 6.3mm water jet at 12.5 l/min per IEC 60529''),
      (''estimated_duration'', VStr ''4 hr''), (''tags'', VStr ''environmental,sealing'')],
     [(''title'', VStr ''Temperature Cycling Test''), (''type'', VStr ''verification''),
      (''level'', VStr ''system''), (''method'', VStr ''test''),
      (''category'', VStr ''environmental''), (''priority'', VStr ''high''),
      (''objective'', VStr ''Verify operation across temperature range''),
      (''description'', VStr (''Operate through 10 cycles of -20'' @ [CHR 0xB0] @ ''C to +50'' @ [CHR 0xB0] @ ''C with 30 min dwells'')),
      (''estimated_duration'', VStr ''24 hr''), (''tags'', VStr ''environmental,thermal'')],
     [(''title'', VStr ''EMC Emissions Test''), (''type'', VStr ''verification''),
      (''level'', VStr ''system''), (''method'', VStr ''test''),
      (''category'', VStr ''electrical''), (''priority'', VStr ''medium''),
      (''objective'', VStr ''Verify compliance with EN 61000-6-4 emissions limits''),
      (''description'', VStr ''Conducted and radiated emissions per EN 55011''),
      (''estimated_duration'', VStr ''8 hr''), (''tags'', VStr ''emc,regulatory'')],
     [(''title'', VStr ''Motor Thermal Test''), (''type'', VStr ''verification''),
      (''level'', VStr ''unit''), (''method'', VStr ''test''), (''category'', VStr ''thermal''),
      (''priority'', VStr ''high''),
      (''objective'', VStr ''Verify motor temperature rise is acceptable''),
      (''description'', VStr ''Run at rated load for 2 hours, monitor winding temperature via resistance''),
      (''estimated_duration'', VStr ''3 hr''), (''tags'', VStr ''thermal,motor'')],
     [(''title'', VStr ''Housing Dimensional Inspection''), (''type'', VStr ''verification''),
      (''level'', VStr ''unit''), (''method'', VStr ''inspection''),
      (''category'', VStr ''dimensional''), (''priority'', VStr ''high''),
      (''objective'', VStr ''Verify housing critical dimensions''),
      (''description'', VStr ''CMM inspection of bearing bores, seal grooves, and mounting features''),
      (''estimated_duration'', VStr ''45 min''), (''tags'', VStr ''dimensional,machined'')],
     [(''title'', VStr ''First Article Inspection''), (''type'', VStr ''verification''),
      (''level'', VStr ''system''), (''method'', VStr ''inspection''),
      (''category'', VStr ''dimensional''), (''priority'', VStr ''critical''),
      (''objective'', VStr ''Complete dimensional inspection of first production unit''),
      (''description'', VStr ''Full CMM inspection per drawing requirements''),
      (''estimated_duration'', VStr ''4 hr''), (''tags'', VStr ''fai,dimensional'')],
     [(''title'', VStr ''Customer Application Trial''), (''type'', VStr ''validation''),
      (''level'', VStr ''acceptance''), (''method'', VStr ''demonstration''),
      (''category'', VStr ''application''), (''priority'', VStr ''high''),
      (''objective'', VStr ''Validate actuator performance in customer application''),
      (''description'', VStr ''Install in customer machine, run typical duty cycle for 1 week''),
      (''estimated_duration'', VStr ''168 hr''), (''tags'', VStr ''validation,customer'')],
     [(''title'', VStr ''Lifecycle Durability Test''), (''type'', VStr ''validation''),
      (''level'', VStr ''system''), (''method'', VStr ''test''),
      (''category'', VStr ''reliability''), (''priority'', VStr ''high''),
      (''objective'', VStr ''Validate actuator achieves design life cycles''),
      (''description'', VStr ''Continuous cycling at rated load until failure or 1M cycles''),
      (''estimated_duration'', VStr ''2000 hr''), (''tags'', VStr ''reliability,endurance'')]]"

text \<open>
  \<^verbatim>\<open>Path(OUTPUT_DIR) / filename\<close>, for an output directory written without a trailing
  separator.
\<close>

definition path_div :: "string \<Rightarrow> string \<Rightarrow> string" where
  "path_div d filename = (if d = [] then filename else d @ ''/'' @ filename)"

definition baseline_write_csv :: "string \<Rightarrow> string \<Rightarrow> string list \<Rightarrow> pydict list \<Rightarrow> world \<Rightarrow> world" where
  "baseline_write_csv output_dir filename headers rows w =
     w\<lparr>files := (files w)(path_div output_dir filename \<mapsto> csv_rows headers rows)\<rparr>"

definition baseline_req_headers :: "string list" where
  "baseline_req_headers = [''title'', ''type'', ''priority'', ''status'', ''text'', ''rationale'',
     ''category'', ''tags'']"

definition baseline_cmp_headers :: "string list" where
  "baseline_cmp_headers = [''part_number'', ''title'', ''make_buy'', ''category'', ''description'',
     ''material'', ''finish'', ''mass'', ''cost'', ''tags'']"

definition baseline_sup_headers :: "string list" where
  "baseline_sup_headers = [''name'', ''short_name'', ''category'', ''contact_name'',
     ''contact_email'', ''contact_phone'', ''website'', ''tags'']"

definition baseline_risk_headers :: "string list" where
  "baseline_risk_headers = [''title'', ''type'', ''category'', ''description'', ''failure_mode'',
     ''cause'', ''effect'', ''severity'', ''occurrence'', ''detection'', ''tags'']"

definition baseline_test_headers :: "string list" where
  "baseline_test_headers = [''title'', ''type'', ''level'', ''method'', ''category'', ''priority'',
     ''objective'', ''description'', ''estimated_duration'', ''tags'']"

definition baseline_main :: "string \<Rightarrow> world \<Rightarrow> world" where
  "baseline_main output_dir w0 =
     (let w1 = w0\<lparr>dirs := insert output_dir (dirs w0)\<rparr>;
          w2 = baseline_write_csv output_dir ''requirements.csv'' baseline_req_headers REQUIREMENTS w1;
          w3 = baseline_write_csv output_dir ''components.csv'' baseline_cmp_headers COMPONENTS w2;
          w4 = baseline_write_csv output_dir ''suppliers.csv'' baseline_sup_headers SUPPLIERS w3;
          w5 = baseline_write_csv output_dir ''risks.csv'' baseline_risk_headers RISKS w4;
          w6 = baseline_write_csv output_dir ''tests.csv'' baseline_test_headers TESTS w5
      in w6)"

section \<open>The import schema of the specification\<close>

text \<open>
  The five entity kinds and, for each, the ordered field list of the schema table in section 3
  of the specification. This table is the specification's; the header lists above are the
  scripts'.
\<close>

datatype entity_kind = Requirement | Component | Supplier | Risk | Test

fun spec_schema :: "entity_kind \<Rightarrow> string list" where
  "spec_schema Requirement =
     [''title'', ''type'', ''priority'', ''status'', ''category'', ''text'', ''rationale'', ''tags'']"
| "spec_schema Component =
     [''part_number'', ''title'', ''make_buy'', ''category'', ''description'', ''material'',
      ''finish'', ''mass'', ''cost'', ''tags'']"
| "spec_schema Supplier =
     [''name'', ''short_name'', ''category'', ''contact_name'', ''contact_email'',
      ''contact_phone'', ''website'', ''tags'']"
| "spec_schema Risk =
     [''title'', ''type'', ''category'', ''description'', ''failure_mode'', ''cause'', ''effect'',
      ''severity'', ''occurrence'', ''detection'', ''tags'']"
| "spec_schema Test =
     [''title'', ''type'', ''level'', ''method'', ''category'', ''priority'', ''objective'',
      ''description'', ''estimated_duration'', ''tags'']"

section \<open>Properties of records, as the specification states them\<close>

text \<open>
  The ranges of section 3 of the specification, as executable checks on a record: a number
  is rounded to \<open>n\<close> decimals when it is a multiple of \<open>10\<^sup>-\<^sup>n\<close>.
\<close>

definition is_rounded :: "nat \<Rightarrow> rat \<Rightarrow> bool" where
  "is_rounded ndigits x = (of_int \<lfloor>x * 10 ^ ndigits\<rfloor> = x * 10 ^ ndigits)"

definition component_in_range :: "pydict \<Rightarrow> bool" where
  "component_in_range row =
     (case (map_of row ''mass'', map_of row ''cost'') of
        (Some (VFloat m), Some (VFloat c)) \<Rightarrow>
          1 / 100 \<le> m \<and> m \<le> 2 \<and> is_rounded 3 m \<and> 1 / 2 \<le> c \<and> c \<le> 150 \<and> is_rounded 2 c
      | _ \<Rightarrow> False)"

definition score :: "pyval option \<Rightarrow> bool" where
  "score v = (case v of Some (VInt k) \<Rightarrow> 1 \<le> k \<and> k \<le> 10 | _ \<Rightarrow> False)"

definition risk_in_range :: "pydict \<Rightarrow> bool" where
  "risk_in_range row =
     (score (map_of row ''severity'') \<and> score (map_of row ''occurrence'')
      \<and> score (map_of row ''detection''))"

text \<open>The number a string of decimal digits denotes, and the random state after one draw.\<close>

definition digits_value :: "string \<Rightarrow> nat" where
  "digits_value s = foldl (\<lambda>acc c. 10 * acc + (of_char c - 48)) 0 s"

definition advance :: "rng \<Rightarrow> rng" where
  "advance g = g\<lparr>pos := Suc (pos g)\<rparr>"

section \<open>The orchestrator's run, as a plan and its trace\<close>

text \<open>
  What one run of the tool leaves behind (\<open>ran\<close>) and records (\<open>timing_of\<close>), and their
  iteration over a list of command lines with the labels their results are recorded under.
  \<open>plan\<close> lists the command lines of \<open>main\<close> in the order it runs them; \<open>is_import\<close>
  recognises an import command by the words that follow the path of the tool; \<open>staged\<close>
  describes the state in which \<open>main\<close> starts the tool for the first time.
\<close>

definition ran :: "string \<Rightarrow> world \<Rightarrow> world" where
  "ran cmd w = w\<lparr>ticks := Suc (Suc (ticks w)), calls := Suc (calls w), commands := commands w @ [cmd]\<rparr>"

definition timing_of :: "string \<Rightarrow> string \<Rightarrow> world \<Rightarrow> timing" where
  "timing_of cmd label w =
     (label, clock w (Suc (ticks w)) - clock w (ticks w), returncode (tool w (calls w) cmd) = 0)"

fun trace :: "(string \<times> string) list \<Rightarrow> world \<Rightarrow> timing list" where
  "trace [] w = []"
| "trace ((cmd, label) # ps) w = timing_of cmd label w # trace ps (ran cmd w)"

fun ran_all :: "(string \<times> string) list \<Rightarrow> world \<Rightarrow> world" where
  "ran_all [] w = w"
| "ran_all ((cmd, label) # ps) w = ran_all ps (ran cmd w)"

definition import_entry :: "config \<Rightarrow> string \<Rightarrow> string \<times> int \<times> string \<Rightarrow> string \<times> string" where
  "import_entry cfg csv_dir p =
     (case p of (etype, count, csv_name) \<Rightarrow>
        (TDT_BIN cfg @ '' import '' @ etype @ '' '' @ csv_dir @ ''/'' @ csv_name,
         ''import '' @ etype @ '' ('' @ py_str count @ '')''))"

definition plan :: "config \<Rightarrow> string \<Rightarrow> (string \<times> string) list" where
  "plan cfg csv_dir =
     (TDT_BIN cfg @ '' init -q'', ''tdt init'')
     # map (import_entry cfg csv_dir) (import_plan cfg)
     @ [(TDT_BIN cfg @ '' validate'', ''validate''),
        (TDT_BIN cfg @ '' validate --fix'', ''validate --fix'')]
     @ list_plan cfg @ status_plan cfg @ cache_plan cfg"

definition is_import :: "config \<Rightarrow> string \<Rightarrow> bool" where
  "is_import cfg cmd = (take (length (TDT_BIN cfg) + 8) cmd = TDT_BIN cfg @ '' import '')"

definition staged :: "config \<Rightarrow> world \<Rightarrow> world \<Rightarrow> bool" where
  "staged cfg w w' \<longleftrightarrow>
     (\<exists>reqs cmps risks tests sups.
        files w' = (files w)
          (os_path_join (tempdir w) ''csvs'' @ ''/requirements.csv'' \<mapsto> csv_rows req_headers reqs,
           os_path_join (tempdir w) ''csvs'' @ ''/components.csv'' \<mapsto> csv_rows cmp_headers cmps,
           os_path_join (tempdir w) ''csvs'' @ ''/risks.csv'' \<mapsto> csv_rows risk_headers risks,
           os_path_join (tempdir w) ''csvs'' @ ''/tests.csv'' \<mapsto> csv_rows test_headers tests,
           os_path_join (tempdir w) ''csvs'' @ ''/suppliers.csv'' \<mapsto> csv_rows sup_headers sups)
        \<and> length reqs = nat (NUM_REQUIREMENTS cfg) \<and> length cmps = nat (NUM_COMPONENTS cfg)
        \<and> length risks = nat (NUM_RISKS cfg) \<and> length tests = nat (NUM_TESTS cfg)
        \<and> length sups = nat (NUM_SUPPLIERS cfg))
     \<and> tool w' = tool w \<and> clock w' = clock w \<and> calls w' = calls w \<and> commands w' = commands w
     \<and> ticks w' = Suc (Suc (ticks w)) \<and> cwd w' = os_path_join (tempdir w) ''project''"

section \<open>A small run\<close>

text \<open>
  The volumes of the end-to-end scenario of the specification, and an environment whose
  target tool fails every time.
\<close>

definition example_config :: config where
  "example_config =
     \<lparr>NUM_REQUIREMENTS = 5, NUM_COMPONENTS = 3, NUM_RISKS = 2, NUM_TESTS = 2, NUM_SUPPLIERS = 1,
      TDT_BIN = ''tdt''\<rparr>"

definition example_world :: world where
  "example_world =
     \<lparr>random_state = \<lparr>draws = (\<lambda>k. 7 * k + 3), pos = 0\<rparr>,
      clock = (\<lambda>k. of_nat k / 4), ticks = 0,
      tool = (\<lambda>k cmd. \<lparr>returncode = 1, stdout = [], stderr = ''no project''\<rparr>), calls = 0,
      commands = [], files = (\<lambda>p. None), dirs = {}, cwd = ''/'',
      tempdir = ''/tmp/tdt-bench-x''\<rparr>"

section \<open>The generators: totality, shape and ranges\<close>

lemma choice_Inr:
  "seq \<noteq> [] \<Longrightarrow> choice seq g = Inr (seq ! (fst (next_draw g) mod length seq), advance g)"
  by (simp add: choice_def next_draw_def advance_def)

lemma randint_Inr:
  "a \<le> b \<Longrightarrow> randint a b g = Inr (a + int (fst (next_draw g) mod nat (b - a + 1)), advance g)"
  by (simp add: randint_def next_draw_def advance_def)

lemma uniform_Inr: "uniform a b g = Inr (a + (b - a) * fst (random_unit g), advance g)"
  by (simp add: uniform_def random_unit_def next_draw_def advance_def)

lemma random_unit_range: "0 \<le> fst (random_unit g) \<and> fst (random_unit g) < 1"
proof -
  have "(of_nat (r mod 2 ^ 53) :: rat) < 2 ^ 53" for r :: nat
  proof -
    have "r mod 2 ^ 53 < 2 ^ 53" by simp
    then have "(of_nat (r mod 2 ^ 53) :: rat) < of_nat (2 ^ 53)" by (simp only: of_nat_less_iff)
    then show ?thesis by simp
  qed
  then show ?thesis
    by (simp add: random_unit_def next_draw_def divide_less_eq)
qed

lemma uniform_range:
  assumes "a \<le> b"
  shows "a \<le> a + (b - a) * fst (random_unit g)" "a + (b - a) * fst (random_unit g) \<le> b"
proof -
  let ?u = "fst (random_unit g)"
  from random_unit_range [of g] have u: "0 \<le> ?u" "?u \<le> 1" by simp_all
  from assms have d: "0 \<le> b - a" by simp
  from d u show "a \<le> a + (b - a) * ?u" by simp
  from d u have "(b - a) * ?u \<le> (b - a) * 1" by (intro mult_left_mono) simp_all
  then show "a + (b - a) * ?u \<le> b" by simp
qed

lemma randint_range:
  assumes "a \<le> b"
  shows "a \<le> a + int (r mod nat (b - a + 1))" "a + int (r mod nat (b - a + 1)) \<le> b"
proof -
  from assms have "0 < nat (b - a + 1)" by simp
  then have "r mod nat (b - a + 1) < nat (b - a + 1)" by (rule mod_less_divisor)
  with assms show "a + int (r mod nat (b - a + 1)) \<le> b" by linarith
  show "a \<le> a + int (r mod nat (b - a + 1))" by simp
qed

lemma round_half_even_bounds:
  assumes "of_int lo \<le> q" "q \<le> of_int hi"
  shows "lo \<le> round_half_even q" "round_half_even q \<le> hi"
proof -
  let ?f = "\<lfloor>q\<rfloor>"
  from assms have f: "lo \<le> ?f" "?f \<le> hi" by (simp_all add: le_floor_iff floor_le_iff)
  have up: "?f + 1 \<le> hi" if "0 < q - of_int ?f"
  proof -
    from that have "of_int ?f < q" by simp
    with assms(2) have "(of_int ?f :: rat) < of_int hi" by linarith
    then show ?thesis by simp
  qed
  from f show "lo \<le> round_half_even q"
    by (simp add: round_half_even_def Let_def)
  from f up show "round_half_even q \<le> hi"
    by (auto simp add: round_half_even_def Let_def not_less)
qed

lemma py_round_bounds:
  assumes "of_int lo / 10 ^ nd \<le> x" "x \<le> of_int hi / 10 ^ nd"
  shows "of_int lo / 10 ^ nd \<le> py_round x nd" "py_round x nd \<le> of_int hi / 10 ^ nd"
proof -
  have p: "(0::rat) < 10 ^ nd" by simp
  from assms p have "of_int lo \<le> x * 10 ^ nd" "x * 10 ^ nd \<le> of_int hi"
    by (simp_all add: pos_divide_le_eq pos_le_divide_eq)
  from round_half_even_bounds [OF this] p
  show "of_int lo / 10 ^ nd \<le> py_round x nd" "py_round x nd \<le> of_int hi / 10 ^ nd"
    by (simp_all add: py_round_def divide_le_cancel)
qed

lemma py_round_is_rounded: "is_rounded nd (py_round x nd)"
  by (simp add: is_rounded_def py_round_def)


lemma pools_nonempty:
  "CATEGORIES \<noteq> []" "PRIORITIES \<noteq> []" "STATUSES \<noteq> []" "REQ_TYPES \<noteq> []"
  "RISK_TYPES \<noteq> []" "TEST_TYPES \<noteq> []" "TEST_LEVELS \<noteq> []" "TEST_METHODS \<noteq> []"
  "MAKE_BUY \<noteq> []" "CMP_CATEGORIES \<noteq> []" "ADJECTIVES \<noteq> []" "NOUNS_REQ \<noteq> []"
  "NOUNS_CMP \<noteq> []" "NOUNS_RISK \<noteq> []"
  by (simp_all add: CATEGORIES_def PRIORITIES_def STATUSES_def REQ_TYPES_def RISK_TYPES_def
      TEST_TYPES_def TEST_LEVELS_def TEST_METHODS_def MAKE_BUY_def CMP_CATEGORIES_def
      ADJECTIVES_def NOUNS_REQ_def NOUNS_CMP_def NOUNS_RISK_def)

lemma uniform_ex:
  "a \<le> b \<Longrightarrow> \<exists>x. uniform a b g = Inr (x, advance g) \<and> a \<le> x \<and> x \<le> b"
  using uniform_range [of a b g] by (simp add: uniform_Inr)

lemma randint_ex:
  "a \<le> b \<Longrightarrow> \<exists>v. randint a b g = Inr (v, advance g) \<and> a \<le> v \<and> v \<le> b"
  using randint_range [of a b "fst (next_draw g)"] by (simp add: randint_Inr)

lemma append_rows_total:
  assumes "\<And>i g. \<exists>row g'. body i g = Inr (row, g') \<and> P i row"
  shows "\<exists>new g'. append_rows body is rows g = Inr (rows @ new, g') \<and> list_all2 P is new"
proof (induction "is" arbitrary: rows g)
  case Nil
  then show ?case by simp
next
  case (Cons i "is")
  from assms obtain row g1 where row: "body i g = Inr (row, g1)" "P i row" by blast
  from Cons.IH [of "rows @ [row]" g1] obtain new g' where
    "append_rows body is (rows @ [row]) g1 = Inr ((rows @ [row]) @ new, g')" "list_all2 P is new"
    by blast
  with row show ?case by (intro exI [of _ "row # new"] exI [of _ g']) simp
qed

lemma list_all2_range_set:
  assumes "list_all2 P is rows" "row \<in> set rows"
  shows "\<exists>i. P i row"
  using assms by (auto simp add: list_all2_conv_all_nth in_set_conv_nth)

lemma list_all2_map_eq:
  assumes "list_all2 (\<lambda>i row. f row = h i) is rows"
  shows "map f rows = map h is"
  using assms by (induction rule: list_all2_induct) simp_all

lemma requirement_row_ok:
  "\<exists>row g'. requirement_row i g = Inr (row, g') \<and> keys row = spec_schema Requirement"
  by (simp add: requirement_row_def bnd_def choice_Inr pools_nonempty keys_def)

lemma test_row_ok:
  "\<exists>row g'. test_row i g = Inr (row, g') \<and> keys row = spec_schema Test"
  by (simp add: test_row_def bnd_def choice_Inr randint_Inr pools_nonempty keys_def)

lemma supplier_row_ok:
  "\<exists>row g'. supplier_row i g = Inr (row, g') \<and> keys row = spec_schema Supplier"
  by (simp add: supplier_row_def bnd_def choice_Inr pools_nonempty keys_def)

lemma component_row_ok:
  "\<exists>row g'. component_row i g = Inr (row, g') \<and> keys row = spec_schema Component
     \<and> map_of row ''part_number'' = Some (VStr (''PN-'' @ format_0d 4 (int i + 1)))
     \<and> component_in_range row"
proof -
  define g4 where "g4 = advance (advance (advance (advance g)))"
  obtain m where m: "uniform (1 / 100) 2 g4 = Inr (m, advance g4)" "1 / 100 \<le> m" "m \<le> 2"
    using uniform_ex [of "1 / 100" 2 g4] by auto
  obtain c where c: "uniform (1 / 2) 150 (advance g4) = Inr (c, advance (advance g4))"
    "1 / 2 \<le> c" "c \<le> 150"
    using uniform_ex [of "1 / 2" 150 "advance g4"] by auto
  from m(2,3) have mr: "1 / 100 \<le> py_round m 3" "py_round m 3 \<le> 2"
    using py_round_bounds [of 10 3 m 2000] by simp_all
  from c(2,3) have cr: "1 / 2 \<le> py_round c 2" "py_round c 2 \<le> 150"
    using py_round_bounds [of 50 2 c 15000] by simp_all
  from mr cr show ?thesis
    unfolding component_row_def
    by (simp add: bnd_def choice_Inr pools_nonempty m(1) [unfolded g4_def] c(1) [unfolded g4_def]
        keys_def component_in_range_def py_round_is_rounded)
qed

lemma risk_row_ok:
  "\<exists>row g'. risk_row i g = Inr (row, g') \<and> keys row = spec_schema Risk \<and> risk_in_range row"
proof -
  define g3 where "g3 = advance (advance (advance g))"
  obtain sev where sev: "randint 1 10 g3 = Inr (sev, advance g3)" "1 \<le> sev" "sev \<le> 10"
    using randint_ex [of 1 10 g3] by auto
  obtain occ where occ: "randint 1 10 (advance g3) = Inr (occ, advance (advance g3))"
    "1 \<le> occ" "occ \<le> 10"
    using randint_ex [of 1 10 "advance g3"] by auto
  obtain det where det:
    "randint 1 10 (advance (advance g3)) = Inr (det, advance (advance (advance g3)))"
    "1 \<le> det" "det \<le> 10"
    using randint_ex [of 1 10 "advance (advance g3)"] by auto
  show ?thesis
    unfolding risk_row_def
    by (simp add: bnd_def choice_Inr pools_nonempty sev [unfolded g3_def] occ [unfolded g3_def]
        det [unfolded g3_def] keys_def risk_in_range_def score_def)
qed


lemma length_py_range: "length (py_range n) = nat n"
  by (simp add: py_range_def)

lemma generate_components_ok:
  "\<exists>rows g'. generate_components n g = Inr (rows, g')
     \<and> list_all2 (\<lambda>i row. keys row = spec_schema Component
          \<and> map_of row ''part_number'' = Some (VStr (''PN-'' @ format_0d 4 (int i + 1)))
          \<and> component_in_range row) (py_range n) rows"
  unfolding generate_components_def
  using append_rows_total [of component_row _ "py_range n" "[]" g, OF component_row_ok] by simp

lemma generate_risks_ok:
  "\<exists>rows g'. generate_risks n g = Inr (rows, g')
     \<and> list_all2 (\<lambda>i row. keys row = spec_schema Risk \<and> risk_in_range row) (py_range n) rows"
  unfolding generate_risks_def
  using append_rows_total [of risk_row _ "py_range n" "[]" g, OF risk_row_ok] by simp

lemma generate_requirements_ok:
  "\<exists>rows g'. generate_requirements n g = Inr (rows, g')
     \<and> list_all2 (\<lambda>i row. keys row = spec_schema Requirement) (py_range n) rows"
  unfolding generate_requirements_def
  using append_rows_total [of requirement_row _ "py_range n" "[]" g, OF requirement_row_ok] by simp

lemma generate_tests_ok:
  "\<exists>rows g'. generate_tests n g = Inr (rows, g')
     \<and> list_all2 (\<lambda>i row. keys row = spec_schema Test) (py_range n) rows"
  unfolding generate_tests_def
  using append_rows_total [of test_row _ "py_range n" "[]" g, OF test_row_ok] by simp

lemma generate_suppliers_ok:
  "\<exists>rows g'. generate_suppliers n g = Inr (rows, g')
     \<and> list_all2 (\<lambda>i row. keys row = spec_schema Supplier) (py_range n) rows"
  unfolding generate_suppliers_def
  using append_rows_total [of supplier_row _ "py_range n" "[]" g, OF supplier_row_ok] by simp

lemma rows_of_range:
  assumes "list_all2 P (py_range n) rows" and "\<And>i row. P i row \<Longrightarrow> Q row"
  shows "length rows = nat n" "\<forall>row\<in>set rows. Q row"
proof -
  from assms(1) show "length rows = nat n"
    by (simp add: list_all2_lengthD [symmetric] length_py_range)
  show "\<forall>row\<in>set rows. Q row"
    using list_all2_range_set [OF assms(1)] assms(2) by blast
qed

lemma generate_requirements_rows:
  "\<exists>rows g'. generate_requirements n g = Inr (rows, g') \<and> length rows = nat n
     \<and> (\<forall>row\<in>set rows. keys row = spec_schema Requirement)"
proof -
  from generate_requirements_ok [of n g] obtain rows g' where
    r: "generate_requirements n g = Inr (rows, g')"
    and a: "list_all2 (\<lambda>i row. keys row = spec_schema Requirement) (py_range n) rows" by blast
  from r rows_of_range [OF a, of "\<lambda>row. keys row = spec_schema Requirement"]
  show ?thesis by simp
qed

lemma generate_components_rows:
  "\<exists>rows g'. generate_components n g = Inr (rows, g') \<and> length rows = nat n
     \<and> (\<forall>row\<in>set rows. keys row = spec_schema Component \<and> component_in_range row)"
proof -
  from generate_components_ok [of n g] obtain rows g' where
    r: "generate_components n g = Inr (rows, g')"
    and a: "list_all2 (\<lambda>i row. keys row = spec_schema Component
          \<and> map_of row ''part_number'' = Some (VStr (''PN-'' @ format_0d 4 (int i + 1)))
          \<and> component_in_range row) (py_range n) rows" by blast
  from r rows_of_range [OF a,
      of "\<lambda>row. keys row = spec_schema Component \<and> component_in_range row"]
  show ?thesis by simp
qed

lemma generate_risks_rows:
  "\<exists>rows g'. generate_risks n g = Inr (rows, g') \<and> length rows = nat n
     \<and> (\<forall>row\<in>set rows. keys row = spec_schema Risk \<and> risk_in_range row)"
proof -
  from generate_risks_ok [of n g] obtain rows g' where
    r: "generate_risks n g = Inr (rows, g')"
    and a: "list_all2 (\<lambda>i row. keys row = spec_schema Risk \<and> risk_in_range row)
          (py_range n) rows" by blast
  from r rows_of_range [OF a, of "\<lambda>row. keys row = spec_schema Risk \<and> risk_in_range row"]
  show ?thesis by simp
qed

lemma generate_tests_rows:
  "\<exists>rows g'. generate_tests n g = Inr (rows, g') \<and> length rows = nat n
     \<and> (\<forall>row\<in>set rows. keys row = spec_schema Test)"
proof -
  from generate_tests_ok [of n g] obtain rows g' where
    r: "generate_tests n g = Inr (rows, g')"
    and a: "list_all2 (\<lambda>i row. keys row = spec_schema Test) (py_range n) rows" by blast
  from r rows_of_range [OF a, of "\<lambda>row. keys row = spec_schema Test"]
  show ?thesis by simp
qed

lemma generate_suppliers_rows:
  "\<exists>rows g'. generate_suppliers n g = Inr (rows, g') \<and> length rows = nat n
     \<and> (\<forall>row\<in>set rows. keys row = spec_schema Supplier)"
proof -
  from generate_suppliers_ok [of n g] obtain rows g' where
    r: "generate_suppliers n g = Inr (rows, g')"
    and a: "list_all2 (\<lambda>i row. keys row = spec_schema Supplier) (py_range n) rows" by blast
  from r rows_of_range [OF a, of "\<lambda>row. keys row = spec_schema Supplier"]
  show ?thesis by simp
qed

lemma digits_value_snoc: "digits_value (s @ [c]) = 10 * digits_value s + (of_char c - 48)"
  by (simp add: digits_value_def)

lemma digits_value_digit: "d < 10 \<Longrightarrow> digits_value [digit_char d] = d"
  by (simp add: digits_value_def digit_char_def)

lemma digits_value_str_nat: "digits_value (str_nat n) = n"
proof (induction n rule: str_nat.induct)
  case (1 n)
  show ?case
  proof (cases "n < 10")
    case True
    then show ?thesis by (subst str_nat.simps) (simp add: digits_value_digit)
  next
    case False
    have "n mod 10 < 10" by simp
    then have "digits_value [digit_char (n mod 10)] = n mod 10" by (rule digits_value_digit)
    then have d: "of_char (digit_char (n mod 10)) - 48 = n mod 10"
      by (simp add: digits_value_def)
    from False 1 have "digits_value (str_nat (n div 10)) = n div 10" by simp
    with False d show ?thesis
      by (subst str_nat.simps) (simp add: digits_value_snoc)
  qed
qed

lemma digits_value_zeros: "foldl (\<lambda>acc c. 10 * acc + (of_char c - 48)) 0 (replicate k CHR ''0'') = (0::nat)"
  by (induction k) simp_all

lemma digits_value_zfill: "digits_value (zfill w s) = digits_value s"
  by (simp add: digits_value_def zfill_def digits_value_zeros)

lemma digits_value_format_0d: "0 \<le> n \<Longrightarrow> digits_value (format_0d w n) = nat n"
  by (simp add: format_0d_def digits_value_zfill digits_value_str_nat)

lemma part_number_inj:
  "inj (\<lambda>i::nat. Some (VStr (''PN-'' @ format_0d 4 (int i + 1))))"
proof (rule injI)
  fix i j :: nat
  assume "Some (VStr (''PN-'' @ format_0d 4 (int i + 1))) = Some (VStr (''PN-'' @ format_0d 4 (int j + 1)))"
  then have "format_0d 4 (int i + 1) = format_0d 4 (int j + 1)" by simp
  then have "digits_value (format_0d 4 (int i + 1)) = digits_value (format_0d 4 (int j + 1))"
    by simp
  then show "i = j" by (simp add: digits_value_format_0d)
qed

lemma first_row:
  assumes "\<exists>rows g'. (r :: error + (pydict list \<times> rng)) = Inr (rows, g') \<and> L (length rows)
     \<and> (\<forall>row\<in>set rows. Q row)"
    and "\<not> L 0"
  shows "\<exists>rows g'. r = Inr (rows, g') \<and> rows \<noteq> [] \<and> Q (hd rows)"
proof -
  from assms(1) obtain rows g' where r: "r = Inr (rows, g')" "L (length rows)"
    "\<forall>row\<in>set rows. Q row" by (elim exE conjE)
  from r(2) assms(2) have ne: "rows \<noteq> []" by (cases rows) simp_all
  then have "hd rows \<in> set rows" by simp
  with r(3) have "Q (hd rows)" by (rule bspec)
  with r(1) ne show ?thesis by (intro exI conjI)
qed

lemma digit_chars: "map digit_char [0, 1, 2, 3, 4, 5, 6, 7, 8, 9] = ''0123456789''"
  by (simp add: digit_char_def char_of_def bit_Suc_0_iff)

lemma str_nat_example: "str_nat 12 = ''12''"
  by (simp add: str_nat.simps digit_char_def char_of_def bit_Suc_0_iff)

lemma format_examples: "format_0d 4 12345 = ''12345'' \<and> format_0d 2 7 = ''07'' \<and> py_str (-40) = ''-40''"
  by (simp add: format_0d_def zfill_def py_str_def str_nat.simps digit_char_def char_of_def bit_Suc_0_iff)

lemma py_range_3: "py_range 3 = [0, 1, 2]"
  by (simp add: py_range_def eval_nat_numeral)

lemma part_numbers_3: "map (\<lambda>i. Some (VStr (''PN-'' @ format_0d 4 (int i + 1)))) (py_range 3)
   = [Some (VStr ''PN-0001''), Some (VStr ''PN-0002''), Some (VStr ''PN-0003'')]"
proof -
  have z: "replicate 3 CHR ''0'' = ''000''" by (simp add: numeral_3_eq_3)
  show ?thesis
    unfolding py_range_3
    by (simp add: format_0d_def zfill_def str_nat.simps digit_char_def char_of_def bit_Suc_0_iff z)
qed

text \<open>
  Claim C10. For every count, one call of \<open>generate_components\<close> returns records whose
  \<^verbatim>\<open>part_number\<close> values are \<^verbatim>\<open>PN-\<close> followed by the zero-padded index plus one, in the
  order of the indices, so they are pairwise distinct within the batch.
\<close>

theorem part_numbers_distinct:
  "\<exists>rows g'. generate_components n g = Inr (rows, g')
     \<and> map (\<lambda>row. map_of row ''part_number'') rows
         = map (\<lambda>i. Some (VStr (''PN-'' @ format_0d 4 (int i + 1)))) (py_range n)
     \<and> distinct (map (\<lambda>row. map_of row ''part_number'') rows)"
proof -
  from generate_components_ok [of n g] obtain rows g' where
    r: "generate_components n g = Inr (rows, g')"
    and a: "list_all2 (\<lambda>i row. keys row = spec_schema Component
          \<and> map_of row ''part_number'' = Some (VStr (''PN-'' @ format_0d 4 (int i + 1)))
          \<and> component_in_range row) (py_range n) rows" by blast
  from a have "list_all2 (\<lambda>i row. map_of row ''part_number''
      = Some (VStr (''PN-'' @ format_0d 4 (int i + 1)))) (py_range n) rows"
    by (rule list_all2_mono) simp
  then have m: "map (\<lambda>row. map_of row ''part_number'') rows
      = map (\<lambda>i. Some (VStr (''PN-'' @ format_0d 4 (int i + 1)))) (py_range n)"
    by (rule list_all2_map_eq)
  have "inj_on (\<lambda>i::nat. Some (VStr (''PN-'' @ format_0d 4 (int i + 1)))) (set (py_range n))"
    by (rule inj_on_subset [OF part_number_inj subset_UNIV])
  moreover have "distinct (py_range n)" by (simp add: py_range_def)
  ultimately
  have "distinct (map (\<lambda>i. Some (VStr (''PN-'' @ format_0d 4 (int i + 1)))) (py_range n))"
    by (simp only: distinct_map)
  with m r show ?thesis by simp
qed

theorem part_numbers_distinct_witness:
  "\<exists>rows g'. generate_components 3 \<lparr>draws = (\<lambda>k. 7 * k + 3), pos = 0\<rparr> = Inr (rows, g')
     \<and> map (\<lambda>row. map_of row ''part_number'') rows
         = [Some (VStr ''PN-0001''), Some (VStr ''PN-0002''), Some (VStr ''PN-0003'')]"
proof -
  from part_numbers_distinct [of 3 "\<lparr>draws = (\<lambda>k. 7 * k + 3), pos = 0\<rparr>", unfolded part_numbers_3]
  obtain rows g' where
    "generate_components 3 \<lparr>draws = (\<lambda>k. 7 * k + 3), pos = 0\<rparr> = Inr (rows, g')"
    "map (\<lambda>row. map_of row ''part_number'') rows
         = [Some (VStr ''PN-0001''), Some (VStr ''PN-0002''), Some (VStr ''PN-0003'')]"
    by (elim exE conjE)
  then show ?thesis by (intro exI conjI)
qed



text \<open>
  Claim C2. For every count \<open>n \<ge> 0\<close> each of the five generators returns, without raising,
  exactly \<open>n\<close> records, each with precisely the fields of the schema table for its kind (in
  the table's order); for \<open>n = 0\<close> it returns the empty list and leaves the random generator
  untouched.
\<close>

theorem generators_yield_count_records:
  assumes "0 \<le> n"
  shows "(\<exists>rows g'. generate_requirements n g = Inr (rows, g') \<and> int (length rows) = n
            \<and> (\<forall>row\<in>set rows. keys row = spec_schema Requirement))
       \<and> (\<exists>rows g'. generate_components n g = Inr (rows, g') \<and> int (length rows) = n
            \<and> (\<forall>row\<in>set rows. keys row = spec_schema Component))
       \<and> (\<exists>rows g'. generate_risks n g = Inr (rows, g') \<and> int (length rows) = n
            \<and> (\<forall>row\<in>set rows. keys row = spec_schema Risk))
       \<and> (\<exists>rows g'. generate_tests n g = Inr (rows, g') \<and> int (length rows) = n
            \<and> (\<forall>row\<in>set rows. keys row = spec_schema Test))
       \<and> (\<exists>rows g'. generate_suppliers n g = Inr (rows, g') \<and> int (length rows) = n
            \<and> (\<forall>row\<in>set rows. keys row = spec_schema Supplier))
       \<and> generate_requirements 0 g = Inr ([], g) \<and> generate_components 0 g = Inr ([], g)
       \<and> generate_risks 0 g = Inr ([], g) \<and> generate_tests 0 g = Inr ([], g)
       \<and> generate_suppliers 0 g = Inr ([], g)"
proof -
  have count: "\<exists>rows g'. (r :: error + (pydict list \<times> rng)) = Inr (rows, g') \<and> int (length rows) = n
      \<and> (\<forall>row\<in>set rows. keys row = fields)"
    if "\<exists>rows g'. r = Inr (rows, g') \<and> length rows = nat n \<and> (\<forall>row\<in>set rows. keys row = fields \<and> Q row)"
    for r fields Q
  proof -
    from that obtain rows g' where "r = Inr (rows, g')" "length rows = nat n"
      "\<forall>row\<in>set rows. keys row = fields \<and> Q row" by blast
    with assms show ?thesis by (intro exI [of _ rows] exI [of _ g']) simp
  qed
  have zero: "generate_requirements 0 g = Inr ([], g)" "generate_components 0 g = Inr ([], g)"
    "generate_risks 0 g = Inr ([], g)" "generate_tests 0 g = Inr ([], g)"
    "generate_suppliers 0 g = Inr ([], g)"
    by (simp_all add: generate_requirements_def generate_components_def generate_risks_def
        generate_tests_def generate_suppliers_def py_range_def)
  have a: "\<exists>rows g'. generate_requirements n g = Inr (rows, g') \<and> int (length rows) = n
      \<and> (\<forall>row\<in>set rows. keys row = spec_schema Requirement)"
    using generate_requirements_rows [of n g] by (intro count [where Q = "\<lambda>row. True"]) simp
  have b: "\<exists>rows g'. generate_components n g = Inr (rows, g') \<and> int (length rows) = n
      \<and> (\<forall>row\<in>set rows. keys row = spec_schema Component)"
    using generate_components_rows [of n g] by (intro count [where Q = component_in_range])
  have c: "\<exists>rows g'. generate_risks n g = Inr (rows, g') \<and> int (length rows) = n
      \<and> (\<forall>row\<in>set rows. keys row = spec_schema Risk)"
    using generate_risks_rows [of n g] by (intro count [where Q = risk_in_range])
  have d: "\<exists>rows g'. generate_tests n g = Inr (rows, g') \<and> int (length rows) = n
      \<and> (\<forall>row\<in>set rows. keys row = spec_schema Test)"
    using generate_tests_rows [of n g] by (intro count [where Q = "\<lambda>row. True"]) simp
  have e: "\<exists>rows g'. generate_suppliers n g = Inr (rows, g') \<and> int (length rows) = n
      \<and> (\<forall>row\<in>set rows. keys row = spec_schema Supplier)"
    using generate_suppliers_rows [of n g] by (intro count [where Q = "\<lambda>row. True"]) simp
  from a b c d e zero show ?thesis by (intro conjI)
qed

theorem generators_yield_count_records_witness:
  "(0::int) \<le> 1
   \<and> (\<exists>rows g'. generate_requirements 1 \<lparr>draws = (\<lambda>k. 7 * k + 3), pos = 0\<rparr> = Inr (rows, g')
         \<and> rows \<noteq> [] \<and> keys (hd rows) = spec_schema Requirement)
   \<and> (\<exists>rows g'. generate_components 1 \<lparr>draws = (\<lambda>k. 7 * k + 3), pos = 0\<rparr> = Inr (rows, g')
         \<and> rows \<noteq> [] \<and> keys (hd rows) = spec_schema Component)
   \<and> (\<exists>rows g'. generate_risks 1 \<lparr>draws = (\<lambda>k. 7 * k + 3), pos = 0\<rparr> = Inr (rows, g')
         \<and> rows \<noteq> [] \<and> keys (hd rows) = spec_schema Risk)
   \<and> (\<exists>rows g'. generate_tests 1 \<lparr>draws = (\<lambda>k. 7 * k + 3), pos = 0\<rparr> = Inr (rows, g')
         \<and> rows \<noteq> [] \<and> keys (hd rows) = spec_schema Test)
   \<and> (\<exists>rows g'. generate_suppliers 1 \<lparr>draws = (\<lambda>k. 7 * k + 3), pos = 0\<rparr> = Inr (rows, g')
         \<and> rows \<noteq> [] \<and> keys (hd rows) = spec_schema Supplier)"
proof -
  have h: "(0::int) \<le> 1" by simp
  note t = generators_yield_count_records [OF h, of "\<lparr>draws = (\<lambda>k. 7 * k + 3), pos = 0\<rparr>"]
  have z: "\<not> int 0 = 1" by simp
  note a = first_row [where L = "\<lambda>k. int k = 1", OF t [THEN conjunct1] z]
  note b = first_row [where L = "\<lambda>k. int k = 1", OF t [THEN conjunct2, THEN conjunct1] z]
  note c = first_row [where L = "\<lambda>k. int k = 1",
      OF t [THEN conjunct2, THEN conjunct2, THEN conjunct1] z]
  note d = first_row [where L = "\<lambda>k. int k = 1",
      OF t [THEN conjunct2, THEN conjunct2, THEN conjunct2, THEN conjunct1] z]
  note e = first_row [where L = "\<lambda>k. int k = 1",
      OF t [THEN conjunct2, THEN conjunct2, THEN conjunct2, THEN conjunct2, THEN conjunct1] z]
  from h a b c d e show ?thesis by (intro conjI)
qed

section \<open>The timed pipeline\<close>

lemma run_timed_eq:
  "run_timed cmd label w =
     Inr ((clock w (Suc (ticks w)) - clock w (ticks w),
           returncode (tool w (calls w) cmd) = 0,
           stdout (tool w (calls w) cmd),
           stderr (tool w (calls w) cmd)), ran cmd w)"
  by (simp add: run_timed_def perf_counter_def subprocess_run_def bnd_def ran_def)

lemma rate_eq: "rate count elapsed = Inr (if 0 < elapsed then of_int count / elapsed else 0)"
  by (simp add: rate_def truediv_def)

lemma timed_phase_eq:
  "timed_phase (cmd, label) rs w = Inr (rs @ [timing_of cmd label w], ran cmd w)"
  by (simp add: timed_phase_def run_timed_eq bnd_def timing_of_def)

lemma import_phase_eq:
  "import_phase cfg csv_dir p rs w =
     Inr (rs @ [timing_of (fst (import_entry cfg csv_dir p)) (snd (import_entry cfg csv_dir p)) w],
          ran (fst (import_entry cfg csv_dir p)) w)"
  by (cases p) (simp add: import_phase_def import_entry_def run_timed_eq rate_eq evaluate_def
      bnd_def timing_of_def)

lemma init_phase_eq:
  "init_phase cfg rs w =
     Inr (rs @ [timing_of (TDT_BIN cfg @ '' init -q'') ''tdt init'' w],
          ran (TDT_BIN cfg @ '' init -q'') w)"
  by (simp add: init_phase_def run_timed_eq bnd_def timing_of_def)

lemma validate_phase_eq:
  "validate_phase cfg rs w =
     Inr (rs @ [timing_of (TDT_BIN cfg @ '' validate'') ''validate'' w],
          ran (TDT_BIN cfg @ '' validate'') w)"
  by (simp add: validate_phase_def run_timed_eq rate_eq evaluate_def bnd_def timing_of_def)

lemma validate_fix_phase_eq:
  "validate_fix_phase cfg rs w =
     Inr (rs @ [timing_of (TDT_BIN cfg @ '' validate --fix'') ''validate --fix'' w],
          ran (TDT_BIN cfg @ '' validate --fix'') w)"
  by (simp add: validate_fix_phase_def run_timed_eq bnd_def timing_of_def)

lemma for_each_timed:
  "for_each timed_phase ps rs w = Inr (rs @ trace ps w, ran_all ps w)"
proof (induction ps arbitrary: rs w)
  case Nil
  show ?case by simp
next
  case (Cons p ps)
  obtain cmd label where p: "p = (cmd, label)" by (cases p)
  show ?case by (simp add: p timed_phase_eq Cons.IH)
qed

lemma for_each_import:
  "for_each (import_phase cfg csv_dir) ps rs w =
     Inr (rs @ trace (map (import_entry cfg csv_dir) ps) w,
          ran_all (map (import_entry cfg csv_dir) ps) w)"
proof (induction ps arbitrary: rs w)
  case Nil
  show ?case by simp
next
  case (Cons p ps)
  obtain cmd label where e: "import_entry cfg csv_dir p = (cmd, label)"
    by (cases "import_entry cfg csv_dir p")
  have "for_each (import_phase cfg csv_dir) (p # ps) rs w
      = for_each (import_phase cfg csv_dir) ps (rs @ [timing_of cmd label w]) (ran cmd w)"
    by (subst for_each.simps, subst import_phase_eq) (simp add: e)
  then show ?case by (simp add: Cons.IH e)
qed

lemma trace_append: "trace (ps @ qs) w = trace ps w @ trace qs (ran_all ps w)"
  by (induction ps w rule: trace.induct) simp_all

lemma ran_all_append: "ran_all (ps @ qs) w = ran_all qs (ran_all ps w)"
  by (induction ps w rule: ran_all.induct) simp_all

lemma phases_eq:
  "bnd (init_phase cfg [] w) (\<lambda>results w6.
     bnd (for_each (import_phase cfg csv_dir) (import_plan cfg) results w6) (\<lambda>results w7.
     bnd (validate_phase cfg results w7) (\<lambda>results w8.
     bnd (validate_fix_phase cfg results w8) (\<lambda>results w9.
     bnd (for_each timed_phase (list_plan cfg) results w9) (\<lambda>results w10.
     bnd (for_each timed_phase (status_plan cfg) results w10) (\<lambda>results w11.
     bnd (for_each timed_phase (cache_plan cfg) results w11) (\<lambda>results w12.
       Inr (summarise cfg results, w12))))))))
   = Inr (summarise cfg (trace (plan cfg csv_dir) w), ran_all (plan cfg csv_dir) w)"
  by (simp add: bnd_def init_phase_eq for_each_import validate_phase_eq validate_fix_phase_eq
      for_each_timed plan_def trace_append ran_all_append)


lemma ran_all_fields:
  "files (ran_all ps w) = files w" "tool (ran_all ps w) = tool w" "clock (ran_all ps w) = clock w"
  "commands (ran_all ps w) = commands w @ map fst ps"
  "calls (ran_all ps w) = calls w + length ps" "ticks (ran_all ps w) = ticks w + 2 * length ps"
  "random_state (ran_all ps w) = random_state w"
  by (induction ps w rule: ran_all.induct) (simp_all add: ran_def)

lemma trace_labels: "map fst (trace ps w) = map snd ps"
  by (induction ps w rule: trace.induct) (simp_all add: timing_of_def)

lemma length_trace: "length (trace ps w) = length ps"
  by (induction ps w rule: trace.induct) simp_all

lemma trace_nth:
  "k < length ps \<Longrightarrow>
   trace ps w ! k = (snd (ps ! k),
     clock w (ticks w + 2 * k + 1) - clock w (ticks w + 2 * k),
     returncode (tool w (calls w + k) (fst (ps ! k))) = 0)"
proof (induction ps w arbitrary: k rule: trace.induct)
  case (1 w)
  then show ?case by simp
next
  case (2 cmd label ps w)
  show ?case
  proof (cases k)
    case 0
    then show ?thesis by (simp add: timing_of_def)
  next
    case (Suc j)
    with 2 show ?thesis by (simp add: ran_def)
  qed
qed

lemma trace_all_failed:
  assumes "\<And>k cmd. returncode (tool w k cmd) \<noteq> 0"
  shows "\<forall>r\<in>set (trace ps w). \<not> snd (snd r)"
proof -
  have "\<not> snd (snd (trace ps w ! k))" if "k < length ps" for k
    using that assms by (simp add: trace_nth)
  then show ?thesis by (simp add: all_set_conv_all_nth length_trace)
qed

lemma trace_all_succeeded:
  assumes "\<And>k cmd. returncode (tool w k cmd) = 0"
  shows "\<forall>r\<in>set (trace ps w). snd (snd r)"
proof -
  have "snd (snd (trace ps w ! k))" if "k < length ps" for k
    using that assms by (simp add: trace_nth)
  then show ?thesis by (simp add: all_set_conv_all_nth length_trace)
qed

lemma count_failed: "sum_list (map (\<lambda>r. 1) (filter P rs)) = length (filter P rs)"
  by (induction rs) simp_all

lemma bnd_Inr: "bnd (Inr (v, s)) f = f v s"
  by (simp add: bnd_def)

lemma with_random_eq:
  "gen (random_state w) = Inr (v, g') \<Longrightarrow> with_random gen w = Inr (v, w\<lparr>random_state := g'\<rparr>)"
  by (simp add: with_random_def)

lemma generate_csvs_eq:
  "\<exists>reqs cmps risks tests sups g'.
     generate_csvs cfg d w =
       Inr ((), w\<lparr>ticks := Suc (Suc (ticks w)), random_state := g',
                 files := (files w)
                   (d @ ''/requirements.csv'' \<mapsto> csv_rows req_headers reqs,
                    d @ ''/components.csv'' \<mapsto> csv_rows cmp_headers cmps,
                    d @ ''/risks.csv'' \<mapsto> csv_rows risk_headers risks,
                    d @ ''/tests.csv'' \<mapsto> csv_rows test_headers tests,
                    d @ ''/suppliers.csv'' \<mapsto> csv_rows sup_headers sups)\<rparr>)
     \<and> length reqs = nat (NUM_REQUIREMENTS cfg) \<and> length cmps = nat (NUM_COMPONENTS cfg)
     \<and> length risks = nat (NUM_RISKS cfg) \<and> length tests = nat (NUM_TESTS cfg)
     \<and> length sups = nat (NUM_SUPPLIERS cfg)"
proof -
  obtain reqs g1 where reqs:
    "generate_requirements (NUM_REQUIREMENTS cfg) (random_state w) = Inr (reqs, g1)"
    "length reqs = nat (NUM_REQUIREMENTS cfg)"
    using generate_requirements_rows [of "NUM_REQUIREMENTS cfg" "random_state w"]
    by (elim exE conjE)
  obtain cmps g2 where cmps:
    "generate_components (NUM_COMPONENTS cfg) g1 = Inr (cmps, g2)"
    "length cmps = nat (NUM_COMPONENTS cfg)"
    using generate_components_rows [of "NUM_COMPONENTS cfg" g1] by (elim exE conjE)
  obtain risks g3 where risks:
    "generate_risks (NUM_RISKS cfg) g2 = Inr (risks, g3)" "length risks = nat (NUM_RISKS cfg)"
    using generate_risks_rows [of "NUM_RISKS cfg" g2] by (elim exE conjE)
  obtain tests g4 where tests:
    "generate_tests (NUM_TESTS cfg) g3 = Inr (tests, g4)" "length tests = nat (NUM_TESTS cfg)"
    using generate_tests_rows [of "NUM_TESTS cfg" g3] by (elim exE conjE)
  obtain sups g5 where sups:
    "generate_suppliers (NUM_SUPPLIERS cfg) g4 = Inr (sups, g5)"
    "length sups = nat (NUM_SUPPLIERS cfg)"
    using generate_suppliers_rows [of "NUM_SUPPLIERS cfg" g4] by (elim exE conjE)
  have "generate_csvs cfg d w =
       Inr ((), w\<lparr>ticks := Suc (Suc (ticks w)), random_state := g5,
                 files := (files w)
                   (d @ ''/requirements.csv'' \<mapsto> csv_rows req_headers reqs,
                    d @ ''/components.csv'' \<mapsto> csv_rows cmp_headers cmps,
                    d @ ''/risks.csv'' \<mapsto> csv_rows risk_headers risks,
                    d @ ''/tests.csv'' \<mapsto> csv_rows test_headers tests,
                    d @ ''/suppliers.csv'' \<mapsto> csv_rows sup_headers sups)\<rparr>)"
    by (simp add: generate_csvs_def bnd_def perf_counter_def write_csv_def with_random_def
        reqs(1) cmps(1) risks(1) tests(1) sups(1))
  with reqs(2) cmps(2) risks(2) tests(2) sups(2) show ?thesis by (intro exI conjI)
qed

lemma main_eq:
  "\<exists>w5. staged cfg w w5
     \<and> main cfg w = Inr (summarise cfg (trace (plan cfg (os_path_join (tempdir w) ''csvs'')) w5),
                         ran_all (plan cfg (os_path_join (tempdir w) ''csvs'')) w5)"
proof -
  define d where "d = os_path_join (tempdir w) ''csvs''"
  define w3 where "w3 = w\<lparr>dirs := insert (os_path_join (tempdir w) ''project'')
     (insert d (insert (tempdir w) (dirs w)))\<rparr>"
  from generate_csvs_eq [of cfg d w3] obtain reqs cmps risks tests sups g' where
    g: "generate_csvs cfg d w3 =
       Inr ((), w3\<lparr>ticks := Suc (Suc (ticks w3)), random_state := g',
                 files := (files w3)
                   (d @ ''/requirements.csv'' \<mapsto> csv_rows req_headers reqs,
                    d @ ''/components.csv'' \<mapsto> csv_rows cmp_headers cmps,
                    d @ ''/risks.csv'' \<mapsto> csv_rows risk_headers risks,
                    d @ ''/tests.csv'' \<mapsto> csv_rows test_headers tests,
                    d @ ''/suppliers.csv'' \<mapsto> csv_rows sup_headers sups)\<rparr>)"
    and l: "length reqs = nat (NUM_REQUIREMENTS cfg)" "length cmps = nat (NUM_COMPONENTS cfg)"
      "length risks = nat (NUM_RISKS cfg)" "length tests = nat (NUM_TESTS cfg)"
      "length sups = nat (NUM_SUPPLIERS cfg)"
    by (elim exE conjE)
  define w5 where "w5 = w3\<lparr>ticks := Suc (Suc (ticks w3)), random_state := g',
                 files := (files w3)
                   (d @ ''/requirements.csv'' \<mapsto> csv_rows req_headers reqs,
                    d @ ''/components.csv'' \<mapsto> csv_rows cmp_headers cmps,
                    d @ ''/risks.csv'' \<mapsto> csv_rows risk_headers risks,
                    d @ ''/tests.csv'' \<mapsto> csv_rows test_headers tests,
                    d @ ''/suppliers.csv'' \<mapsto> csv_rows sup_headers sups),
                 cwd := os_path_join (tempdir w) ''project''\<rparr>"
  have st: "staged cfg w w5"
    unfolding staged_def
  proof (intro conjI exI)
    show "files w5 = (files w)
          (os_path_join (tempdir w) ''csvs'' @ ''/requirements.csv'' \<mapsto> csv_rows req_headers reqs,
           os_path_join (tempdir w) ''csvs'' @ ''/components.csv'' \<mapsto> csv_rows cmp_headers cmps,
           os_path_join (tempdir w) ''csvs'' @ ''/risks.csv'' \<mapsto> csv_rows risk_headers risks,
           os_path_join (tempdir w) ''csvs'' @ ''/tests.csv'' \<mapsto> csv_rows test_headers tests,
           os_path_join (tempdir w) ''csvs'' @ ''/suppliers.csv'' \<mapsto> csv_rows sup_headers sups)"
      by (simp add: w5_def w3_def d_def)
  qed (simp_all add: l w5_def w3_def)
  have "main cfg w = Inr (summarise cfg (trace (plan cfg d) w5), ran_all (plan cfg d) w5)"
    by (simp add: main_def mkdtemp_def makedirs_def chdir_def bnd_Inr Let_def d_def [symmetric]
        g [unfolded w3_def, simplified] phases_eq w5_def w3_def)
  with st show ?thesis unfolding d_def by (intro exI conjI)
qed


lemma length_plan: "length (plan cfg d) = 26"
  by (simp add: plan_def import_plan_def list_plan_def status_plan_def cache_plan_def)

lemma plan_imports:
  "filter (is_import cfg) (map fst (plan cfg d)) =
     [TDT_BIN cfg @ '' import req '' @ d @ ''/requirements.csv'',
      TDT_BIN cfg @ '' import cmp '' @ d @ ''/components.csv'',
      TDT_BIN cfg @ '' import sup '' @ d @ ''/suppliers.csv'',
      TDT_BIN cfg @ '' import risk '' @ d @ ''/risks.csv'',
      TDT_BIN cfg @ '' import test '' @ d @ ''/tests.csv'']"
  by (simp add: plan_def import_plan_def list_plan_def status_plan_def cache_plan_def
      is_import_def import_entry_def)

lemma plan_import_labels:
  "filter (\<lambda>l. take 7 l = ''import '') (map snd (plan cfg d)) =
     [''import req ('' @ py_str (NUM_REQUIREMENTS cfg) @ '')'',
      ''import cmp ('' @ py_str (NUM_COMPONENTS cfg) @ '')'',
      ''import sup ('' @ py_str (NUM_SUPPLIERS cfg) @ '')'',
      ''import risk ('' @ py_str (NUM_RISKS cfg) @ '')'',
      ''import test ('' @ py_str (NUM_TESTS cfg) @ '')'']"
  by (simp add: plan_def import_plan_def list_plan_def status_plan_def cache_plan_def
      import_entry_def)

lemma filter_labels:
  "map fst (filter (\<lambda>r. P (fst r)) rs) = filter P (map fst rs)"
  by (induction rs) simp_all

lemma staged_files:
  assumes "staged cfg w w5" and "d = os_path_join (tempdir w) ''csvs''"
  shows "\<exists>data. files w5 (d @ ''/requirements.csv'') = Some (map VStr req_headers # data)
            \<and> length data = nat (NUM_REQUIREMENTS cfg)"
    "\<exists>data. files w5 (d @ ''/components.csv'') = Some (map VStr cmp_headers # data)
            \<and> length data = nat (NUM_COMPONENTS cfg)"
    "\<exists>data. files w5 (d @ ''/suppliers.csv'') = Some (map VStr sup_headers # data)
            \<and> length data = nat (NUM_SUPPLIERS cfg)"
    "\<exists>data. files w5 (d @ ''/risks.csv'') = Some (map VStr risk_headers # data)
            \<and> length data = nat (NUM_RISKS cfg)"
    "\<exists>data. files w5 (d @ ''/tests.csv'') = Some (map VStr test_headers # data)
            \<and> length data = nat (NUM_TESTS cfg)"
proof -
  from assms(1) obtain reqs cmps risks tests sups where
    f: "files w5 = (files w)
          (d @ ''/requirements.csv'' \<mapsto> csv_rows req_headers reqs,
           d @ ''/components.csv'' \<mapsto> csv_rows cmp_headers cmps,
           d @ ''/risks.csv'' \<mapsto> csv_rows risk_headers risks,
           d @ ''/tests.csv'' \<mapsto> csv_rows test_headers tests,
           d @ ''/suppliers.csv'' \<mapsto> csv_rows sup_headers sups)"
    and l: "length reqs = nat (NUM_REQUIREMENTS cfg)" "length cmps = nat (NUM_COMPONENTS cfg)"
      "length risks = nat (NUM_RISKS cfg)" "length tests = nat (NUM_TESTS cfg)"
      "length sups = nat (NUM_SUPPLIERS cfg)"
    unfolding staged_def assms(2) by (elim exE conjE)
  show "\<exists>data. files w5 (d @ ''/requirements.csv'') = Some (map VStr req_headers # data)
            \<and> length data = nat (NUM_REQUIREMENTS cfg)"
    by (rule exI [of _ "map (dict_to_list req_headers) reqs"]) (simp add: f l csv_rows_def)
  show "\<exists>data. files w5 (d @ ''/components.csv'') = Some (map VStr cmp_headers # data)
            \<and> length data = nat (NUM_COMPONENTS cfg)"
    by (rule exI [of _ "map (dict_to_list cmp_headers) cmps"]) (simp add: f l csv_rows_def)
  show "\<exists>data. files w5 (d @ ''/suppliers.csv'') = Some (map VStr sup_headers # data)
            \<and> length data = nat (NUM_SUPPLIERS cfg)"
    by (rule exI [of _ "map (dict_to_list sup_headers) sups"]) (simp add: f l csv_rows_def)
  show "\<exists>data. files w5 (d @ ''/risks.csv'') = Some (map VStr risk_headers # data)
            \<and> length data = nat (NUM_RISKS cfg)"
    by (rule exI [of _ "map (dict_to_list risk_headers) risks"]) (simp add: f l csv_rows_def)
  show "\<exists>data. files w5 (d @ ''/tests.csv'') = Some (map VStr test_headers # data)
            \<and> length data = nat (NUM_TESTS cfg)"
    by (rule exI [of _ "map (dict_to_list test_headers) tests"]) (simp add: f l csv_rows_def)
qed

lemma staged_fields:
  assumes "staged cfg w w5"
  shows "tool w5 = tool w" "clock w5 = clock w" "calls w5 = calls w" "commands w5 = commands w"
    "ticks w5 = Suc (Suc (ticks w))"
  using assms unfolding staged_def by simp_all

text \<open>
  Claim C3. With non-negative volumes, \<open>main\<close> runs exactly five import commands, in the order
  req, cmp, sup, risk, test, each naming the fixture file of its kind in the data directory;
  exactly five results carry an import label, one per kind in the same order, each made of
  the kind and its configured count; and each of the five files holds the header row of its
  kind followed by as many data rows as the configured count.
\<close>

theorem import_phase_runs_five_imports:
  fixes w :: world and cfg :: config
  defines "d \<equiv> os_path_join (tempdir w) ''csvs''"
  assumes "0 \<le> NUM_REQUIREMENTS cfg" "0 \<le> NUM_COMPONENTS cfg" "0 \<le> NUM_SUPPLIERS cfg"
    "0 \<le> NUM_RISKS cfg" "0 \<le> NUM_TESTS cfg"
  shows "\<exists>s w'. main cfg w = Inr (s, w')
    \<and> filter (is_import cfg) (drop (length (commands w)) (commands w')) =
        [TDT_BIN cfg @ '' import req '' @ d @ ''/requirements.csv'',
         TDT_BIN cfg @ '' import cmp '' @ d @ ''/components.csv'',
         TDT_BIN cfg @ '' import sup '' @ d @ ''/suppliers.csv'',
         TDT_BIN cfg @ '' import risk '' @ d @ ''/risks.csv'',
         TDT_BIN cfg @ '' import test '' @ d @ ''/tests.csv'']
    \<and> map fst (filter (\<lambda>r. take 7 (fst r) = ''import '') (results s)) =
        [''import req ('' @ py_str (NUM_REQUIREMENTS cfg) @ '')'',
         ''import cmp ('' @ py_str (NUM_COMPONENTS cfg) @ '')'',
         ''import sup ('' @ py_str (NUM_SUPPLIERS cfg) @ '')'',
         ''import risk ('' @ py_str (NUM_RISKS cfg) @ '')'',
         ''import test ('' @ py_str (NUM_TESTS cfg) @ '')'']
    \<and> (\<exists>data. files w' (d @ ''/requirements.csv'') = Some (map VStr req_headers # data)
          \<and> int (length data) = NUM_REQUIREMENTS cfg)
    \<and> (\<exists>data. files w' (d @ ''/components.csv'') = Some (map VStr cmp_headers # data)
          \<and> int (length data) = NUM_COMPONENTS cfg)
    \<and> (\<exists>data. files w' (d @ ''/suppliers.csv'') = Some (map VStr sup_headers # data)
          \<and> int (length data) = NUM_SUPPLIERS cfg)
    \<and> (\<exists>data. files w' (d @ ''/risks.csv'') = Some (map VStr risk_headers # data)
          \<and> int (length data) = NUM_RISKS cfg)
    \<and> (\<exists>data. files w' (d @ ''/tests.csv'') = Some (map VStr test_headers # data)
          \<and> int (length data) = NUM_TESTS cfg)"
proof -
  from main_eq [of cfg w] obtain w5 where st: "staged cfg w w5"
    and m: "main cfg w = Inr (summarise cfg (trace (plan cfg d) w5), ran_all (plan cfg d) w5)"
    unfolding d_def by (elim exE conjE)
  let ?s = "summarise cfg (trace (plan cfg d) w5)" and ?w = "ran_all (plan cfg d) w5"
  have c: "filter (is_import cfg) (drop (length (commands w)) (commands ?w)) =
        [TDT_BIN cfg @ '' import req '' @ d @ ''/requirements.csv'',
         TDT_BIN cfg @ '' import cmp '' @ d @ ''/components.csv'',
         TDT_BIN cfg @ '' import sup '' @ d @ ''/suppliers.csv'',
         TDT_BIN cfg @ '' import risk '' @ d @ ''/risks.csv'',
         TDT_BIN cfg @ '' import test '' @ d @ ''/tests.csv'']"
    by (simp add: ran_all_fields staged_fields [OF st] plan_imports)
  have r: "map fst (filter (\<lambda>r. take 7 (fst r) = ''import '') (results ?s)) =
        [''import req ('' @ py_str (NUM_REQUIREMENTS cfg) @ '')'',
         ''import cmp ('' @ py_str (NUM_COMPONENTS cfg) @ '')'',
         ''import sup ('' @ py_str (NUM_SUPPLIERS cfg) @ '')'',
         ''import risk ('' @ py_str (NUM_RISKS cfg) @ '')'',
         ''import test ('' @ py_str (NUM_TESTS cfg) @ '')'']"
  proof -
    have "map fst (filter (\<lambda>r. take 7 (fst r) = ''import '') (trace (plan cfg d) w5))
        = filter (\<lambda>l. take 7 l = ''import '') (map fst (trace (plan cfg d) w5))"
      by (rule filter_labels [of "\<lambda>l. take 7 l = ''import ''"])
    then show ?thesis
      by (simp only: summarise_def summary.simps trace_labels plan_import_labels)
  qed
  have n: "int (nat k) = k" if "0 \<le> k" for k using that by simp
  have f1: "\<exists>data. files ?w (d @ ''/requirements.csv'') = Some (map VStr req_headers # data)
          \<and> int (length data) = NUM_REQUIREMENTS cfg"
    using staged_files(1) [OF st d_def [THEN meta_eq_to_obj_eq]] assms(2)
    by (auto simp add: ran_all_fields)
  have f2: "\<exists>data. files ?w (d @ ''/components.csv'') = Some (map VStr cmp_headers # data)
          \<and> int (length data) = NUM_COMPONENTS cfg"
    using staged_files(2) [OF st d_def [THEN meta_eq_to_obj_eq]] assms(3)
    by (auto simp add: ran_all_fields)
  have f3: "\<exists>data. files ?w (d @ ''/suppliers.csv'') = Some (map VStr sup_headers # data)
          \<and> int (length data) = NUM_SUPPLIERS cfg"
    using staged_files(3) [OF st d_def [THEN meta_eq_to_obj_eq]] assms(4)
    by (auto simp add: ran_all_fields)
  have f4: "\<exists>data. files ?w (d @ ''/risks.csv'') = Some (map VStr risk_headers # data)
          \<and> int (length data) = NUM_RISKS cfg"
    using staged_files(4) [OF st d_def [THEN meta_eq_to_obj_eq]] assms(5)
    by (auto simp add: ran_all_fields)
  have f5: "\<exists>data. files ?w (d @ ''/tests.csv'') = Some (map VStr test_headers # data)
          \<and> int (length data) = NUM_TESTS cfg"
    using staged_files(5) [OF st d_def [THEN meta_eq_to_obj_eq]] assms(6)
    by (auto simp add: ran_all_fields)
  from m c r f1 f2 f3 f4 f5 show ?thesis by (intro exI [of _ ?s] exI [of _ ?w] conjI)
qed

lemma example_values:
  "NUM_REQUIREMENTS example_config = 5" "NUM_COMPONENTS example_config = 3"
  "NUM_SUPPLIERS example_config = 1" "NUM_RISKS example_config = 2"
  "NUM_TESTS example_config = 2" "TDT_BIN example_config = ''tdt''"
  "os_path_join (tempdir example_world) ''csvs'' = ''/tmp/tdt-bench-x/csvs''"
  "commands example_world = []"
  by (simp_all add: example_config_def example_world_def os_path_join_def)

lemma py_str_examples:
  "py_str 1 = ''1''" "py_str 2 = ''2''" "py_str 3 = ''3''" "py_str 5 = ''5''"
  by (simp_all add: py_str_def str_nat.simps digit_char_def char_of_def bit_Suc_0_iff)

theorem import_phase_runs_five_imports_witness:
  "0 \<le> NUM_REQUIREMENTS example_config \<and> 0 \<le> NUM_COMPONENTS example_config
   \<and> 0 \<le> NUM_SUPPLIERS example_config \<and> 0 \<le> NUM_RISKS example_config
   \<and> 0 \<le> NUM_TESTS example_config
   \<and> (\<exists>s w'. main example_config example_world = Inr (s, w')
    \<and> filter (is_import example_config) (commands w') =
        [''tdt import req /tmp/tdt-bench-x/csvs/requirements.csv'',
         ''tdt import cmp /tmp/tdt-bench-x/csvs/components.csv'',
         ''tdt import sup /tmp/tdt-bench-x/csvs/suppliers.csv'',
         ''tdt import risk /tmp/tdt-bench-x/csvs/risks.csv'',
         ''tdt import test /tmp/tdt-bench-x/csvs/tests.csv'']
    \<and> map fst (filter (\<lambda>r. take 7 (fst r) = ''import '') (results s)) =
        [''import req (5)'', ''import cmp (3)'', ''import sup (1)'', ''import risk (2)'',
         ''import test (2)'']
    \<and> (\<exists>data. files w' ''/tmp/tdt-bench-x/csvs/requirements.csv''
            = Some (map VStr req_headers # data) \<and> length data = 5)
    \<and> (\<exists>data. files w' ''/tmp/tdt-bench-x/csvs/components.csv''
            = Some (map VStr cmp_headers # data) \<and> length data = 3)
    \<and> (\<exists>data. files w' ''/tmp/tdt-bench-x/csvs/suppliers.csv''
            = Some (map VStr sup_headers # data) \<and> length data = 1)
    \<and> (\<exists>data. files w' ''/tmp/tdt-bench-x/csvs/risks.csv''
            = Some (map VStr risk_headers # data) \<and> length data = 2)
    \<and> (\<exists>data. files w' ''/tmp/tdt-bench-x/csvs/tests.csv''
            = Some (map VStr test_headers # data) \<and> length data = 2))"
proof -
  have h: "0 \<le> NUM_REQUIREMENTS example_config" "0 \<le> NUM_COMPONENTS example_config"
    "0 \<le> NUM_SUPPLIERS example_config" "0 \<le> NUM_RISKS example_config"
    "0 \<le> NUM_TESTS example_config"
    by (simp_all add: example_values)
  have n: "int k = 5 \<longleftrightarrow> k = 5" "int k = 3 \<longleftrightarrow> k = 3" "int k = 2 \<longleftrightarrow> k = 2" "int k = 1 \<longleftrightarrow> k = 1"
    for k by auto
  note t = import_phase_runs_five_imports [OF h, of example_world,
      unfolded example_values py_str_examples append.simps drop_0 list.size n]
  from h t show ?thesis by (intro conjI)
qed





text \<open>
  Claim C7. The summary's total time is the sum of the elapsed durations of the recorded
  results and its failure count is the number of results whose success flag is false; the
  flag of the \<open>k\<close>-th result is "the \<open>k\<close>-th command exited with status zero". So when every
  run of the tool exits non-zero, every result has the flag false and the failure count is
  the number of recorded operations.
\<close>

theorem summary_totals_and_failures:
  "\<exists>s w'. main cfg w = Inr (s, w')
     \<and> total_time s = sum_list (map (\<lambda>r. fst (snd r)) (results s))
     \<and> failed s = length (filter (\<lambda>r. \<not> snd (snd r)) (results s))
     \<and> operations_run s = length (results s)
     \<and> length (results s) = 26
     \<and> (\<forall>k<26. snd (snd (results s ! k))
           = (returncode (tool w (calls w + k) (drop (length (commands w)) (commands w') ! k)) = 0))
     \<and> ((\<forall>k cmd. returncode (tool w k cmd) \<noteq> 0) \<longrightarrow>
          (\<forall>r\<in>set (results s). \<not> snd (snd r)) \<and> failed s = operations_run s)"
proof -
  define d where "d = os_path_join (tempdir w) ''csvs''"
  from main_eq [of cfg w] obtain w5 where st: "staged cfg w w5"
    and m: "main cfg w = Inr (summarise cfg (trace (plan cfg d) w5), ran_all (plan cfg d) w5)"
    unfolding d_def by (elim exE conjE)
  let ?s = "summarise cfg (trace (plan cfg d) w5)" and ?w = "ran_all (plan cfg d) w5"
  have r: "results ?s = trace (plan cfg d) w5" by (simp add: summarise_def)
  have a: "total_time ?s = sum_list (map (\<lambda>r. fst (snd r)) (results ?s))"
    by (simp add: summarise_def)
  have b: "failed ?s = length (filter (\<lambda>r. \<not> snd (snd r)) (results ?s))"
    by (simp only: summarise_def summary.simps count_failed)
  have c: "operations_run ?s = length (results ?s)" by (simp add: summarise_def)
  have l: "length (results ?s) = 26" by (simp add: r length_trace length_plan)
  have e: "\<forall>k<26. snd (snd (results ?s ! k))
           = (returncode (tool w (calls w + k) (drop (length (commands w)) (commands ?w) ! k)) = 0)"
    by (simp add: r trace_nth length_plan ran_all_fields staged_fields [OF st])
  have f: "(\<forall>k cmd. returncode (tool w k cmd) \<noteq> 0) \<longrightarrow>
          (\<forall>r\<in>set (results ?s). \<not> snd (snd r)) \<and> failed ?s = operations_run ?s"
  proof
    assume h: "\<forall>k cmd. returncode (tool w k cmd) \<noteq> 0"
    then have "\<And>k cmd. returncode (tool w5 k cmd) \<noteq> 0" by (simp add: staged_fields [OF st])
    then have all: "\<forall>r\<in>set (trace (plan cfg d) w5). \<not> snd (snd r)" by (rule trace_all_failed)
    then have "filter (\<lambda>r. \<not> snd (snd r)) (trace (plan cfg d) w5) = trace (plan cfg d) w5"
      by (simp add: filter_id_conv)
    with all show "(\<forall>r\<in>set (results ?s). \<not> snd (snd r)) \<and> failed ?s = operations_run ?s"
      by (simp add: b c r)
  qed
  from m a b c l e f show ?thesis by (intro exI [of _ ?s] exI [of _ ?w] conjI)
qed

theorem summary_totals_and_failures_witness:
  "(\<forall>k cmd. returncode (tool example_world k cmd) \<noteq> 0)
   \<and> (\<exists>s w'. main example_config example_world = Inr (s, w')
         \<and> length (results s) = 26 \<and> failed s = 26 \<and> operations_run s = 26)"
proof -
  have h: "\<forall>k cmd. returncode (tool example_world k cmd) \<noteq> 0" by (simp add: example_world_def)
  from summary_totals_and_failures [of example_config example_world] obtain s w' where
    m: "main example_config example_world = Inr (s, w')"
    and c: "operations_run s = length (results s)" and l: "length (results s) = 26"
    and f: "(\<forall>k cmd. returncode (tool example_world k cmd) \<noteq> 0) \<longrightarrow>
          (\<forall>r\<in>set (results s). \<not> snd (snd r)) \<and> failed s = operations_run s"
    by (elim exE conjE)
  from f h have "failed s = operations_run s" by simp
  with c l have "failed s = 26" "operations_run s = 26" by simp_all
  with m l h show ?thesis by (intro conjI exI [of _ s] exI [of _ w'])
qed

section \<open>The tabular writer and the baseline fixtures\<close>

lemma dict_to_list_nth:
  "j < length headers \<Longrightarrow>
   dict_to_list headers row ! j = (case map_of row (headers ! j) of None \<Rightarrow> VStr [] | Some v \<Rightarrow> v)"
  by (simp add: dict_to_list_def dict_get_def)

text \<open>
  Claim C5. For every field order and every list of records, both writers return without
  error and the file holds a header row equal to the field order followed by one row per
  record, in order; a row has one cell per field of the field order, which is the record's
  value for that field, or the empty string when the record has no such field. Fields of a
  record outside the field order appear nowhere.
\<close>

theorem tabular_writer_projects_records:
  "(\<exists>w'. write_csv filepath headers rows w = Inr ((), w')
       \<and> files w' filepath = Some (csv_rows headers rows))
   \<and> files (baseline_write_csv output_dir filename headers rows w) (path_div output_dir filename)
       = Some (csv_rows headers rows)
   \<and> hd (csv_rows headers rows) = map VStr headers
   \<and> length (tl (csv_rows headers rows)) = length rows
   \<and> (\<forall>i<length rows. length (tl (csv_rows headers rows) ! i) = length headers
        \<and> (\<forall>j<length headers. tl (csv_rows headers rows) ! i ! j
              = (case map_of (rows ! i) (headers ! j) of None \<Rightarrow> VStr [] | Some v \<Rightarrow> v)))"
  by (simp add: write_csv_def baseline_write_csv_def csv_rows_def dict_to_list_nth)
    (simp add: dict_to_list_def)

theorem tabular_writer_projects_records_witness:
  "hd (csv_rows [''a'', ''b'']
         [[(''a'', VInt 1), (''b'', VInt 2), (''c'', VInt 3)], [(''a'', VInt 1)]])
     = [VStr ''a'', VStr ''b'']
   \<and> length (tl (csv_rows [''a'', ''b'']
         [[(''a'', VInt 1), (''b'', VInt 2), (''c'', VInt 3)], [(''a'', VInt 1)]])) = 2
   \<and> length (tl (csv_rows [''a'', ''b'']
         [[(''a'', VInt 1), (''b'', VInt 2), (''c'', VInt 3)], [(''a'', VInt 1)]]) ! 0) = 2
   \<and> tl (csv_rows [''a'', ''b'']
         [[(''a'', VInt 1), (''b'', VInt 2), (''c'', VInt 3)], [(''a'', VInt 1)]]) ! 0 ! 0 = VInt 1
   \<and> tl (csv_rows [''a'', ''b'']
         [[(''a'', VInt 1), (''b'', VInt 2), (''c'', VInt 3)], [(''a'', VInt 1)]]) ! 0 ! 1 = VInt 2
   \<and> length (tl (csv_rows [''a'', ''b'']
         [[(''a'', VInt 1), (''b'', VInt 2), (''c'', VInt 3)], [(''a'', VInt 1)]]) ! 1) = 2
   \<and> tl (csv_rows [''a'', ''b'']
         [[(''a'', VInt 1), (''b'', VInt 2), (''c'', VInt 3)], [(''a'', VInt 1)]]) ! 1 ! 0 = VInt 1
   \<and> tl (csv_rows [''a'', ''b'']
         [[(''a'', VInt 1), (''b'', VInt 2), (''c'', VInt 3)], [(''a'', VInt 1)]]) ! 1 ! 1 = VStr []"
proof -
  let ?h = "[''a'', ''b'']"
  let ?rows = "[[(''a'', VInt 1), (''b'', VInt 2), (''c'', VInt 3)], [(''a'', VInt 1)]]"
  note t = tabular_writer_projects_records [of "[]" ?h ?rows example_world "[]" "[]"]
  note hd = t [THEN conjunct2, THEN conjunct2, THEN conjunct1]
  note len = t [THEN conjunct2, THEN conjunct2, THEN conjunct2, THEN conjunct1]
  note cells = t [THEN conjunct2, THEN conjunct2, THEN conjunct2, THEN conjunct2]
  have i0: "0 < length ?rows" and i1: "1 < length ?rows" by simp_all
  have j0: "0 < length ?h" and j1: "1 < length ?h" by simp_all
  note r0 = cells [THEN spec, of 0, THEN mp, OF i0]
  note r1 = cells [THEN spec, of 1, THEN mp, OF i1]
  note c00 = r0 [THEN conjunct2, THEN spec, of 0, THEN mp, OF j0]
  note c01 = r0 [THEN conjunct2, THEN spec, of 1, THEN mp, OF j1]
  note c10 = r1 [THEN conjunct2, THEN spec, of 0, THEN mp, OF j0]
  note c11 = r1 [THEN conjunct2, THEN spec, of 1, THEN mp, OF j1]
  from hd have a: "hd (csv_rows ?h ?rows) = [VStr ''a'', VStr ''b'']" by simp
  from len have b: "length (tl (csv_rows ?h ?rows)) = 2" by simp
  from r0 [THEN conjunct1] have c: "length (tl (csv_rows ?h ?rows) ! 0) = 2" by simp
  from r1 [THEN conjunct1] have d: "length (tl (csv_rows ?h ?rows) ! 1) = 2" by simp
  from c00 have e: "tl (csv_rows ?h ?rows) ! 0 ! 0 = VInt 1" by simp
  from c01 have f: "tl (csv_rows ?h ?rows) ! 0 ! 1 = VInt 2" by simp
  from c10 have g: "tl (csv_rows ?h ?rows) ! 1 ! 0 = VInt 1" by simp
  from c11 have h: "tl (csv_rows ?h ?rows) ! 1 ! 1 = VStr []" by simp
  from a b c e f d g h show ?thesis by (intro conjI)
qed

lemma baseline_files:
  "files (baseline_main d w) (path_div d ''requirements.csv'')
     = Some (csv_rows baseline_req_headers REQUIREMENTS)"
  "files (baseline_main d w) (path_div d ''components.csv'')
     = Some (csv_rows baseline_cmp_headers COMPONENTS)"
  "files (baseline_main d w) (path_div d ''suppliers.csv'')
     = Some (csv_rows baseline_sup_headers SUPPLIERS)"
  "files (baseline_main d w) (path_div d ''risks.csv'')
     = Some (csv_rows baseline_risk_headers RISKS)"
  "files (baseline_main d w) (path_div d ''tests.csv'')
     = Some (csv_rows baseline_test_headers TESTS)"
  "random_state (baseline_main d w) = random_state w"
  by (simp_all add: baseline_main_def baseline_write_csv_def path_div_def Let_def)


section \<open>Header rows and the schema table\<close>

lemma benchmark_headers:
  "req_headers = spec_schema Requirement" "cmp_headers = spec_schema Component"
  "sup_headers = spec_schema Supplier" "risk_headers = spec_schema Risk"
  "test_headers = spec_schema Test"
  by (simp_all add: req_headers_def cmp_headers_def sup_headers_def risk_headers_def
      test_headers_def)

lemma baseline_headers:
  "baseline_cmp_headers = spec_schema Component" "baseline_sup_headers = spec_schema Supplier"
  "baseline_risk_headers = spec_schema Risk" "baseline_test_headers = spec_schema Test"
  by (simp_all add: baseline_cmp_headers_def baseline_sup_headers_def baseline_risk_headers_def
      baseline_test_headers_def)

lemma csv_rows_header: "\<exists>data. Some (csv_rows headers rows) = Some (map VStr headers # data)"
  by (simp add: csv_rows_def)

text \<open>
  Claim C1 says that the header row of every fixture file of both programs is the schema
  table's field list, in the table's order. The requirements file of the baseline generator
  is written with \<^verbatim>\<open>text, rationale, category\<close> where the table has
  \<^verbatim>\<open>category, text, rationale\<close>.
\<close>

theorem baseline_requirement_header_counterexample:
  "hd (the (files (baseline_main ''baseline_csvs'' example_world)
              (path_div ''baseline_csvs'' ''requirements.csv'')))
     = map VStr [''title'', ''type'', ''priority'', ''status'', ''text'', ''rationale'',
         ''category'', ''tags'']
   \<and> map VStr [''title'', ''type'', ''priority'', ''status'', ''text'', ''rationale'',
         ''category'', ''tags'']
     \<noteq> map VStr (spec_schema Requirement)"
  by (simp add: baseline_files csv_rows_def baseline_req_headers_def)

text \<open>
  Claim C1, amended. Every fixture file written by either program has a header row made of
  exactly the fields of the schema table for its kind, each once. The order is the table's
  in the five files of the benchmark driver and in the component, supplier, risk and test
  files of the baseline generator; the header of the baseline generator's requirements file
  is title, type, priority, status, text, rationale, category, tags.
\<close>

theorem fixture_headers_have_schema_fields:
  fixes w :: world and cfg :: config
  defines "d \<equiv> os_path_join (tempdir w) ''csvs''"
  shows "(\<exists>s w'. main cfg w = Inr (s, w')
      \<and> (\<exists>data. files w' (d @ ''/requirements.csv'')
             = Some (map VStr (spec_schema Requirement) # data))
      \<and> (\<exists>data. files w' (d @ ''/components.csv'')
             = Some (map VStr (spec_schema Component) # data))
      \<and> (\<exists>data. files w' (d @ ''/suppliers.csv'')
             = Some (map VStr (spec_schema Supplier) # data))
      \<and> (\<exists>data. files w' (d @ ''/risks.csv'') = Some (map VStr (spec_schema Risk) # data))
      \<and> (\<exists>data. files w' (d @ ''/tests.csv'') = Some (map VStr (spec_schema Test) # data)))
    \<and> (\<exists>data. files (baseline_main output_dir w) (path_div output_dir ''components.csv'')
           = Some (map VStr (spec_schema Component) # data))
    \<and> (\<exists>data. files (baseline_main output_dir w) (path_div output_dir ''suppliers.csv'')
           = Some (map VStr (spec_schema Supplier) # data))
    \<and> (\<exists>data. files (baseline_main output_dir w) (path_div output_dir ''risks.csv'')
           = Some (map VStr (spec_schema Risk) # data))
    \<and> (\<exists>data. files (baseline_main output_dir w) (path_div output_dir ''tests.csv'')
           = Some (map VStr (spec_schema Test) # data))
    \<and> (\<exists>data. files (baseline_main output_dir w) (path_div output_dir ''requirements.csv'')
           = Some (map VStr [''title'', ''type'', ''priority'', ''status'', ''text'',
                ''rationale'', ''category'', ''tags''] # data))
    \<and> set [''title'', ''type'', ''priority'', ''status'', ''text'', ''rationale'', ''category'',
           ''tags''] = set (spec_schema Requirement)
    \<and> distinct [''title'', ''type'', ''priority'', ''status'', ''text'', ''rationale'',
           ''category'', ''tags'']"
proof -
  from main_eq [of cfg w] obtain w5 where st: "staged cfg w w5"
    and m: "main cfg w = Inr (summarise cfg (trace (plan cfg d) w5), ran_all (plan cfg d) w5)"
    unfolding d_def by (elim exE conjE)
  let ?s = "summarise cfg (trace (plan cfg d) w5)" and ?w = "ran_all (plan cfg d) w5"
  note sf = staged_files [OF st d_def [THEN meta_eq_to_obj_eq]]
  have f1: "\<exists>data. files ?w (d @ ''/requirements.csv'')
      = Some (map VStr (spec_schema Requirement) # data)"
    using sf(1) unfolding benchmark_headers ran_all_fields by (elim exE conjE) (rule exI)
  have f2: "\<exists>data. files ?w (d @ ''/components.csv'')
      = Some (map VStr (spec_schema Component) # data)"
    using sf(2) unfolding benchmark_headers ran_all_fields by (elim exE conjE) (rule exI)
  have f3: "\<exists>data. files ?w (d @ ''/suppliers.csv'')
      = Some (map VStr (spec_schema Supplier) # data)"
    using sf(3) unfolding benchmark_headers ran_all_fields by (elim exE conjE) (rule exI)
  have f4: "\<exists>data. files ?w (d @ ''/risks.csv'') = Some (map VStr (spec_schema Risk) # data)"
    using sf(4) unfolding benchmark_headers ran_all_fields by (elim exE conjE) (rule exI)
  have f5: "\<exists>data. files ?w (d @ ''/tests.csv'') = Some (map VStr (spec_schema Test) # data)"
    using sf(5) unfolding benchmark_headers ran_all_fields by (elim exE conjE) (rule exI)
  from m f1 f2 f3 f4 f5 have bench: "\<exists>s w'. main cfg w = Inr (s, w')
      \<and> (\<exists>data. files w' (d @ ''/requirements.csv'')
             = Some (map VStr (spec_schema Requirement) # data))
      \<and> (\<exists>data. files w' (d @ ''/components.csv'')
             = Some (map VStr (spec_schema Component) # data))
      \<and> (\<exists>data. files w' (d @ ''/suppliers.csv'')
             = Some (map VStr (spec_schema Supplier) # data))
      \<and> (\<exists>data. files w' (d @ ''/risks.csv'') = Some (map VStr (spec_schema Risk) # data))
      \<and> (\<exists>data. files w' (d @ ''/tests.csv'') = Some (map VStr (spec_schema Test) # data))"
    by (intro exI [of _ ?s] exI [of _ ?w] conjI)
  note b = baseline_files [of output_dir w]
  have b2: "\<exists>data. files (baseline_main output_dir w) (path_div output_dir ''components.csv'')
           = Some (map VStr (spec_schema Component) # data)"
    unfolding b(2) baseline_headers [symmetric] by (rule csv_rows_header)
  have b3: "\<exists>data. files (baseline_main output_dir w) (path_div output_dir ''suppliers.csv'')
           = Some (map VStr (spec_schema Supplier) # data)"
    unfolding b(3) baseline_headers [symmetric] by (rule csv_rows_header)
  have b4: "\<exists>data. files (baseline_main output_dir w) (path_div output_dir ''risks.csv'')
           = Some (map VStr (spec_schema Risk) # data)"
    unfolding b(4) baseline_headers [symmetric] by (rule csv_rows_header)
  have b5: "\<exists>data. files (baseline_main output_dir w) (path_div output_dir ''tests.csv'')
           = Some (map VStr (spec_schema Test) # data)"
    unfolding b(5) baseline_headers [symmetric] by (rule csv_rows_header)
  have b1: "\<exists>data. files (baseline_main output_dir w) (path_div output_dir ''requirements.csv'')
           = Some (map VStr [''title'', ''type'', ''priority'', ''status'', ''text'',
                ''rationale'', ''category'', ''tags''] # data)"
    unfolding b(1) baseline_req_headers_def [symmetric] by (rule csv_rows_header)
  have s: "set [''title'', ''type'', ''priority'', ''status'', ''text'', ''rationale'', ''category'',
           ''tags''] = set (spec_schema Requirement)"
    by auto
  have di: "distinct [''title'', ''type'', ''priority'', ''status'', ''text'', ''rationale'',
           ''category'', ''tags'']"
    by simp
  from bench b2 b3 b4 b5 b1 s di show ?thesis by (intro conjI)
qed

end
